theory Spec2Isabelle
  imports Complex_Main
begin

text \<open>
  A shallow embedding of parts of the editor integration of an AI coding assistant: the
  diffstat boxes of the command palette panel, the probe response model, the
  authentication provider's session storage, the semantic search command and the agent
  session provider with its streamed edits. Each TypeScript function is a HOL function of
  the same name; a class is a record of its fields and its methods take and return the
  record; a \<^verbatim>\<open>throw\<close> or a rejected promise is the left summand of the result. All
  definitions come first, the properties follow.
\<close>

section \<open>Diffstat boxes of the command palette panel\<close>

text \<open>
  \<^verbatim>\<open>aideCommandPalettePanel.ts\<close>: \<^verbatim>\<open>FileChanges\<close>, \<^verbatim>\<open>DiffStat\<close>,
  \<^verbatim>\<open>calculateDiffstat\<close> and \<^verbatim>\<open>generateDiffstats\<close>.

  The line counts are JavaScript numbers that hold integers. The two ratios, the
  thresholds and their comparisons are computed in double precision, with its rounding:
  \<^verbatim>\<open>calculateDiffstat\<close> takes these operations as a record \<open>F\<close> over a type \<open>'f\<close> of
  doubles, \<open>dbl_div F a b\<close> for \<^verbatim>\<open>a / b\<close>, \<open>dbl_one_minus F x\<close> for \<^verbatim>\<open>1 - x\<close> and
  \<open>dbl_gt F x y\<close> for \<^verbatim>\<open>x > y\<close>, so that what is proved of it holds for the
  arithmetic of the machine. A box is the string the code writes, since the array is
  filled with string literals that the type \<^verbatim>\<open>DiffStat\<close> does not check.
\<close>

record FileChanges =
  added :: int
  removed :: int

type_synonym DiffStat = "string list"

record 'f DoubleOps =
  dbl_div :: "int \<Rightarrow> int \<Rightarrow> 'f"
  dbl_one_minus :: "'f \<Rightarrow> 'f"
  dbl_gt :: "'f \<Rightarrow> 'f \<Rightarrow> bool"

definition calculateDiffstat :: "'f DoubleOps \<Rightarrow> int \<Rightarrow> int \<Rightarrow> int \<Rightarrow> nat \<Rightarrow> DiffStat" where
  "calculateDiffstat F totalChanges linesAdded linesRemoved numberOfBoxes =
     (if totalChanges = 0 then replicate numberOfBoxes ''emtpty''
      else
        let addRatio = dbl_div F linesAdded totalChanges;
            delRatio = dbl_div F linesRemoved totalChanges
        in map (\<lambda>i.
                 let threshold = dbl_div F (int i + 1) 5
                 in if dbl_gt F addRatio threshold then ''added''
                    else if dbl_gt F delRatio (dbl_one_minus F threshold) then ''removed''
                    else ''empty'')
               [0..<numberOfBoxes])"

text \<open>
  \<^verbatim>\<open>Object.entries(fileChanges)\<close> is the list of the record's entries in order; the
  result is the \<^verbatim>\<open>Map\<close> built by one \<^verbatim>\<open>set\<close> per entry. The call passes three
  arguments, so \<^verbatim>\<open>numberOfBoxes\<close> takes its default, 5.
\<close>

definition generateDiffstats ::
  "'f DoubleOps \<Rightarrow> (string \<times> FileChanges) list \<Rightarrow> (string \<rightharpoonup> DiffStat)" where
  "generateDiffstats F fileChanges =
     foldl (\<lambda>diffstats (path, changes).
              let totalChanges = added changes + removed changes;
                  stat = calculateDiffstat F totalChanges (added changes) (removed changes) 5
              in diffstats(path \<mapsto> stat))
           Map.empty fileChanges"

section \<open>The probe response model\<close>

text \<open>
  \<^verbatim>\<open>AideProbeResponseModel\<close> and \<^verbatim>\<open>AideProbeModel\<close>. The type \<open>'u\<close> stands for the
  editor's \<^verbatim>\<open>URI\<close> objects with all their own fields, so that equality in \<open>'u\<close> is
  what \<^verbatim>\<open>equals\<close> of \<^verbatim>\<open>vs/base/common/objects\<close> computes on two of them, a deep
  comparison of own fields; \<^verbatim>\<open>uri.toString()\<close> is a function \<open>toStr\<close> the operations
  take. The operations read it on the uri of a reference only, and the first read on an
  object fills its cache: the uri of a reference is taken with that cache filled, so
  that the read changes nothing.
\<close>



record IMarkdownString =
  md_value :: string

record 'u Reference =
  ref_name :: string
  ref_uri :: 'u

record 'u IAideProbeBreakdownContent =
  bd_reference :: "'u Reference"
  bd_query :: "IMarkdownString option"
  bd_reason :: "IMarkdownString option"
  bd_response :: "IMarkdownString option"

record 'u IAideProbeGoToDefinition =
  gtd_uri :: 'u
  gtd_name :: string
  gtd_range :: "nat \<times> nat \<times> nat \<times> nat"
  gtd_thinking :: string

record 'u IAideProbeTextEditPreview =
  pv_reference :: "'u Reference"
  pv_ranges :: "(nat \<times> nat \<times> nat \<times> nat) list"

record 'u IAideProbeTextEdit =
  te_reference :: "'u Reference"
  te_edits :: "string list"

text \<open>
  Breakdown objects are shared: the map \<^verbatim>\<open>_breakdownsBySymbol\<close> and the array
  \<^verbatim>\<open>_breakdowns\<close> hold references to the same objects, and \<^verbatim>\<open>applyBreakdown\<close> writes
  fields through the map's reference. Objects therefore live in a store, a function from
  addresses to breakdown objects, and the map and the array hold addresses.
\<close>

type_synonym addr = nat

type_synonym 'u store = "addr \<Rightarrow> 'u IAideProbeBreakdownContent"

record 'u AideProbeResponseModel =
  result :: "IMarkdownString option"
  breakdownsBySymbol :: "string \<rightharpoonup> addr"
  breakdowns :: "addr list"
  goToDefinitions :: "'u IAideProbeGoToDefinition list"
  codeEditsPreviewBySymbol :: "string \<rightharpoonup> 'u IAideProbeTextEditPreview list"
  codeEditsPreview :: "'u IAideProbeTextEditPreview list"
  codeEdits :: "'u IAideProbeTextEdit list"

definition new_AideProbeResponseModel :: "'u AideProbeResponseModel" where
  "new_AideProbeResponseModel =
     \<lparr> result = None, breakdownsBySymbol = Map.empty, breakdowns = [],
       goToDefinitions = [], codeEditsPreviewBySymbol = Map.empty,
       codeEditsPreview = [], codeEdits = [] \<rparr>"



text \<open>
  \<^verbatim>\<open>applyBreakdown\<close>. The key of the map is the template string
  \<^verbatim>\<open>`${uri.toString()}:${name}`\<close>. A field is overwritten when the incoming one is
  defined and its \<^verbatim>\<open>value\<close> has positive length. \<^verbatim>\<open>findIndex\<close> returns the first
  index whose element satisfies the test, or \<^verbatim>\<open>-1\<close> (here \<open>None\<close>).
\<close>

definition mapKey :: "('u \<Rightarrow> string) \<Rightarrow> 'u Reference \<Rightarrow> string" where
  "mapKey toStr reference = toStr (ref_uri reference) @ '':'' @ ref_name reference"

definition nonEmpty :: "IMarkdownString option \<Rightarrow> bool" where
  "nonEmpty m = (case m of None \<Rightarrow> False | Some v \<Rightarrow> length (md_value v) > 0)"

fun findIndex :: "('a \<Rightarrow> bool) \<Rightarrow> 'a list \<Rightarrow> nat option" where
  "findIndex P [] = None"
| "findIndex P (x # xs) = (if P x then Some 0 else map_option Suc (findIndex P xs))"

definition applyBreakdown ::
  "('u \<Rightarrow> string) \<Rightarrow> 'u store \<times> 'u AideProbeResponseModel \<Rightarrow> addr
     \<Rightarrow> 'u store \<times> 'u AideProbeResponseModel" where
  "applyBreakdown toStr hr breakdown =
     (let h = fst hr; r = snd hr;
          key = mapKey toStr (bd_reference (h breakdown));
          query = bd_query (h breakdown);
          reason = bd_reason (h breakdown);
          response = bd_response (h breakdown)
      in case breakdownsBySymbol r key of
           Some a \<Rightarrow>
             let h1 = (if nonEmpty query then h(a := (h a)\<lparr>bd_query := query\<rparr>) else h);
                 h2 = (if nonEmpty reason then h1(a := (h1 a)\<lparr>bd_reason := reason\<rparr>) else h1);
                 h3 = (if nonEmpty response then h2(a := (h2 a)\<lparr>bd_response := response\<rparr>) else h2)
             in (case findIndex
                        (\<lambda>b. ref_name (bd_reference (h3 b)) = ref_name (bd_reference (h3 breakdown))
                           \<and> ref_uri (bd_reference (h3 b)) = ref_uri (bd_reference (h3 breakdown)))
                        (breakdowns r) of
                   Some index \<Rightarrow> (h3, r\<lparr>breakdowns := (breakdowns r)[index := a]\<rparr>)
                 | None \<Rightarrow> (h3, r))
         | None \<Rightarrow>
             (h, r\<lparr>breakdownsBySymbol := (breakdownsBySymbol r)(key \<mapsto> breakdown),
                  breakdowns := breakdowns r @ [breakdown]\<rparr>))"



text \<open>
  The sequence of calls of the claim: \<^verbatim>\<open>applyBreakdown\<close> on one object after another,
  from the left. \<open>symbolOf\<close> reads the pair \<^verbatim>\<open>(reference.uri, reference.name)\<close> of the
  object at an address, and \<open>overwriteFields\<close> is the update the claim describes: each of
  the three fields taken from the incoming object when it is non-empty there.
\<close>

definition applyBreakdowns ::
  "('u \<Rightarrow> string) \<Rightarrow> 'u store \<times> 'u AideProbeResponseModel \<Rightarrow> addr list
     \<Rightarrow> 'u store \<times> 'u AideProbeResponseModel" where
  "applyBreakdowns toStr hr bs = foldl (applyBreakdown toStr) hr bs"

definition symbolOf :: "'u store \<Rightarrow> addr \<Rightarrow> 'u \<times> string" where
  "symbolOf h a = (ref_uri (bd_reference (h a)), ref_name (bd_reference (h a)))"

definition overwriteFields ::
  "'u IAideProbeBreakdownContent \<Rightarrow> 'u IAideProbeBreakdownContent \<Rightarrow> 'u IAideProbeBreakdownContent" where
  "overwriteFields existing incoming =
     existing\<lparr>bd_query := (if nonEmpty (bd_query incoming) then bd_query incoming else bd_query existing),
              bd_reason := (if nonEmpty (bd_reason incoming) then bd_reason incoming else bd_reason existing),
              bd_response := (if nonEmpty (bd_response incoming) then bd_response incoming
                              else bd_response existing)\<rparr>"

text \<open>
  The state the array and the map are in after any sequence of calls: the array has no
  address twice, and the map sends the key of every object of the array to that object.
\<close>

definition consistent :: "('u \<Rightarrow> string) \<Rightarrow> 'u store \<times> 'u AideProbeResponseModel \<Rightarrow> bool" where
  "consistent toStr hr =
     (distinct (breakdowns (snd hr))
      \<and> (\<forall>a \<in> set (breakdowns (snd hr)).
            breakdownsBySymbol (snd hr) (mapKey toStr (bd_reference (fst hr a))) = Some a)
      \<and> ran (breakdownsBySymbol (snd hr)) \<subseteq> set (breakdowns (snd hr)))"

text \<open>
  \<^verbatim>\<open>AideProbeModel\<close>. \<open>onDidChange\<close> counts the calls of \<^verbatim>\<open>_onDidChange.fire()\<close>
  and \<open>onDidChangeTailing\<close> lists the values fired on the other emitter. A progress item
  is a tagged union on \<^verbatim>\<open>kind\<close>; a breakdown item is the breakdown object itself, given
  by its address, and \<open>OtherProgress\<close> stands for the kinds the \<^verbatim>\<open>switch\<close> does not
  list. A \<^verbatim>\<open>throw\<close> is the left summand of the result.
\<close>

datatype error = Error string | TypeError string | SyntaxError string

record AideProbeRequestModel =
  rq_sessionId :: string
  rq_message :: string
  rq_editMode :: bool

record 'u AideProbeModel =
  pm_request :: "AideProbeRequestModel option"
  pm_response :: "'u AideProbeResponseModel option"
  pm_isComplete :: bool
  pm_isTailing :: bool
  pm_sessionId :: string
  onDidChange :: nat
  onDidChangeTailing :: "bool list"




definition followAlong :: "'u AideProbeModel \<Rightarrow> bool \<Rightarrow> 'u AideProbeModel" where
  "followAlong m follow =
     m\<lparr>pm_isTailing := follow, onDidChangeTailing := onDidChangeTailing m @ [follow]\<rparr>"

definition completeResponse :: "'u AideProbeModel \<Rightarrow> 'u AideProbeModel" where
  "completeResponse m =
     (let m1 = followAlong (m\<lparr>pm_isComplete := True\<rparr>) False
      in m1\<lparr>onDidChange := onDidChange m1 + 1\<rparr>)"

definition cancelRequest :: "'u AideProbeModel \<Rightarrow> 'u AideProbeModel" where
  "cancelRequest m =
     m\<lparr>pm_request := None, pm_response := None, pm_isComplete := False,
       onDidChange := onDidChange m + 1\<rparr>"

subsection \<open>Concrete objects for the evaluations below\<close>
















definition ex_bd_first :: "string IAideProbeBreakdownContent" where
  "ex_bd_first = \<lparr>bd_reference = \<lparr>ref_name = ''foo'', ref_uri = ''file:///a.ts''\<rparr>,
                  bd_query = Some \<lparr>md_value = ''why''\<rparr>, bd_reason = None, bd_response = None\<rparr>"

definition ex_bd_update :: "string IAideProbeBreakdownContent" where
  "ex_bd_update = \<lparr>bd_reference = \<lparr>ref_name = ''foo'', ref_uri = ''file:///a.ts''\<rparr>,
                   bd_query = Some \<lparr>md_value = []\<rparr>,
                   bd_reason = Some \<lparr>md_value = ''because''\<rparr>, bd_response = None\<rparr>"

definition ex_store :: "string store" where
  "ex_store = (\<lambda>a. if a = 1 then ex_bd_update else ex_bd_first)"

section \<open>The authentication provider\<close>

text \<open>
  \<^verbatim>\<open>CodeStoryAuthProvider\<close>: \<^verbatim>\<open>getSessions\<close> and \<^verbatim>\<open>removeSession\<close>. The host's
  secret storage is a map from keys to strings. \<^verbatim>\<open>JSON.parse\<close> and
  \<^verbatim>\<open>JSON.stringify\<close> belong to the language, not to the repository: the operations take
  them as a record \<open>J\<close>, and a \<^verbatim>\<open>SyntaxError\<close> of \<^verbatim>\<open>JSON.parse\<close> is a left summand.
  \<open>sessionChanges\<close> lists the events fired on \<^verbatim>\<open>_sessionChangeEmitter\<close>.
\<close>

record CodeStoryAuthenticationSession =
  session_id :: string
  accessToken :: string
  refreshToken :: string
  expiresIn :: nat
  account_label :: string
  account_id :: string
  scopes :: "string list"

record SessionsChangeEvent =
  ev_added :: "CodeStoryAuthenticationSession list"
  ev_removed :: "CodeStoryAuthenticationSession list"
  ev_changed :: "CodeStoryAuthenticationSession list"

record JSON =
  parse :: "string \<Rightarrow> error + CodeStoryAuthenticationSession list"
  stringify :: "CodeStoryAuthenticationSession list \<Rightarrow> string"

record CodeStoryAuthProvider =
  secrets :: "string \<rightharpoonup> string"
  sessionChanges :: "SessionsChangeEvent list"

definition AUTH_TYPE :: string where
  "AUTH_TYPE = ''codestory''"

definition SESSIONS_SECRET_KEY :: string where
  "SESSIONS_SECRET_KEY = AUTH_TYPE @ ''.sessions''"

text \<open>
  \<^verbatim>\<open>if (allSessions)\<close> is false for \<^verbatim>\<open>undefined\<close> (no secret under the key) and for the
  empty string.
\<close>

definition getSessions ::
  "JSON \<Rightarrow> CodeStoryAuthProvider \<Rightarrow> error + CodeStoryAuthenticationSession list" where
  "getSessions J st =
     (case secrets st SESSIONS_SECRET_KEY of
        None \<Rightarrow> Inr []
      | Some allSessions \<Rightarrow>
          if allSessions \<noteq> [] then parse J allSessions else Inr [])"

text \<open>
  JavaScript's \<^verbatim>\<open>findIndex\<close> returns \<^verbatim>\<open>-1\<close> when no element passes the test;
  \<^verbatim>\<open>xs[i]\<close> is \<^verbatim>\<open>undefined\<close> outside the array; \<^verbatim>\<open>splice(start, deleteCount)\<close>
  counts a negative \<^verbatim>\<open>start\<close> from the end of the array and removes what is there.
\<close>

definition findIndexJS :: "('a \<Rightarrow> bool) \<Rightarrow> 'a list \<Rightarrow> int" where
  "findIndexJS P xs = (case findIndex P xs of None \<Rightarrow> - 1 | Some i \<Rightarrow> int i)"

definition atJS :: "'a list \<Rightarrow> int \<Rightarrow> 'a option" where
  "atJS xs i = (if 0 \<le> i \<and> i < int (length xs) then Some (xs ! nat i) else None)"

definition splice :: "'a list \<Rightarrow> int \<Rightarrow> int \<Rightarrow> 'a list" where
  "splice xs start deleteCount =
     (let len = int (length xs);
          actualStart = (if start < 0 then max (len + start) 0 else min start len);
          actualDeleteCount = min (max deleteCount 0) (len - actualStart)
      in take (nat actualStart) xs @ drop (nat (actualStart + actualDeleteCount)) xs)"

definition removeSession ::
  "JSON \<Rightarrow> CodeStoryAuthProvider \<Rightarrow> string \<Rightarrow> error + CodeStoryAuthProvider" where
  "removeSession J st sessionId =
     (case secrets st SESSIONS_SECRET_KEY of
        None \<Rightarrow> Inr st
      | Some allSessions \<Rightarrow>
          if allSessions \<noteq> [] then
            (case parse J allSessions of
               Inl e \<Rightarrow> Inl e
             | Inr sessions \<Rightarrow>
                 let sessionIdx = findIndexJS (\<lambda>s. session_id s = sessionId) sessions;
                     session = atJS sessions sessionIdx;
                     sessions' = splice sessions sessionIdx 1;
                     st1 = st\<lparr>secrets := (secrets st)(SESSIONS_SECRET_KEY \<mapsto> stringify J sessions')\<rparr>
                 in (case session of
                       Some s \<Rightarrow>
                         Inr (st1\<lparr>sessionChanges := sessionChanges st1 @
                                     [\<lparr>ev_added = [], ev_removed = [s], ev_changed = []\<rparr>]\<rparr>)
                     | None \<Rightarrow> Inr st1))
          else Inr st)"

text \<open>
  A codec for the evaluations below: the JSON documents of a finite table, each with the
  session list it denotes. Any other text is a syntax error.
\<close>

definition tableJSON :: "(string \<times> CodeStoryAuthenticationSession list) list \<Rightarrow> JSON" where
  "tableJSON tbl =
     \<lparr>parse = (\<lambda>text. case map_of tbl text of
                         None \<Rightarrow> Inl (SyntaxError text)
                       | Some sessions \<Rightarrow> Inr sessions),
      stringify = (\<lambda>sessions. case find (\<lambda>entry. snd entry = sessions) tbl of
                                None \<Rightarrow> ''null''
                              | Some entry \<Rightarrow> fst entry)\<rparr>"

definition ex_session :: CodeStoryAuthenticationSession where
  "ex_session = \<lparr>session_id = ''id-1'', accessToken = ''at'', refreshToken = ''rt'',
                 expiresIn = 300000, account_label = ''Ada Lovelace'',
                 account_id = ''ada@example.org'', scopes = []\<rparr>"

definition ex_JSON :: JSON where
  "ex_JSON = tableJSON [(''[]'', []), (''[id-1]'', [ex_session])]"

definition ex_auth :: CodeStoryAuthProvider where
  "ex_auth = \<lparr>secrets = [SESSIONS_SECRET_KEY \<mapsto> ''[id-1]''], sessionChanges = []\<rparr>"

section \<open>The semantic search command\<close>

text \<open>
  The handler registered for \<^verbatim>\<open>codestory.semanticSearch\<close> in \<^verbatim>\<open>activate\<close>. The values
  the closure captures (\<^verbatim>\<open>sidecarClient\<close>, \<^verbatim>\<open>currentRepo\<close>, \<^verbatim>\<open>repoName\<close>,
  \<^verbatim>\<open>repoHash\<close>, \<^verbatim>\<open>postHogClient\<close>, \<^verbatim>\<open>getUniqueId\<close>) are the fields of an
  environment; the sidecar's method is a function of it, and a rejected promise is a left
  summand. The logger's lines and the captured analytics events are the state.
\<close>

record RepoRef =
  repo_path :: string
  repo_backend :: string

record PostHogEvent =
  distinctId :: string
  ph_event :: string
  ph_properties :: "(string \<times> string) list"

record 'r SearchEnv =
  getSemanticSearchResult :: "string \<Rightarrow> RepoRef \<Rightarrow> error + 'r list"
  currentRepo :: RepoRef
  repoName :: string
  repoHash :: string
  postHogClient :: bool
  getUniqueId :: string

record ExtensionLog =
  logger_info :: "string list"
  captured :: "PostHogEvent list"

definition semanticSearch ::
  "'r SearchEnv \<Rightarrow> ExtensionLog \<Rightarrow> string \<Rightarrow> (error + 'r list) \<times> ExtensionLog" where
  "semanticSearch env st prompt =
     (let st1 = st\<lparr>logger_info := logger_info st @
                     [''[semanticSearch][extension] We are executing semantic search :'' @ prompt]\<rparr>;
          st2 = (if postHogClient env
                 then st1\<lparr>captured := captured st1 @
                            [\<lparr>distinctId = getUniqueId env, ph_event = ''search'',
                              ph_properties = [(''prompt'', prompt), (''repoName'', repoName env),
                                               (''repoHash'', repoHash env)]\<rparr>]\<rparr>
                 else st1);
          results = getSemanticSearchResult env prompt (currentRepo env)
      in (results, st2))"

definition ex_env :: "string SearchEnv" where
  "ex_env = \<lparr>getSemanticSearchResult =
               (\<lambda>prompt repo. if prompt = [] then Inl (Error ''empty prompt'')
                               else Inr [repo_path repo @ ''/b.ts'', prompt, repo_path repo @ ''/a.ts'']),
             currentRepo = \<lparr>repo_path = ''/work'', repo_backend = ''local''\<rparr>,
             repoName = ''work'', repoHash = ''abc'', postHogClient = True,
             getUniqueId = ''user''\<rparr>"

section \<open>The agent session provider\<close>

text \<open>
  \<^verbatim>\<open>AideAgentSessionProvider\<close>. Each method runs to its end before the next one starts:
  an \<^verbatim>\<open>await\<close> is the call it waits for, and the interleaving of two pending calls is
  not part of this model.

  The classes and functions the provider imports come from modules that are not among the
  source files (\<^verbatim>\<open>AnswerSplitOnNewLineAccumulatorStreaming\<close> and \<^verbatim>\<open>StreamProcessor\<close>
  of \<^verbatim>\<open>chatState/convertStreamToMessage\<close>, \<^verbatim>\<open>applyEdits\<close> and \<^verbatim>\<open>Limiter\<close> of
  \<^verbatim>\<open>server/applyEdits\<close>, the sidecar client, the editor's API). The provider's methods
  take them as the fields of a record of collaborators, over four types: \<open>'a\<close> the state
  of a line accumulator, \<open>'p\<close> the state of a stream processor, \<open>'l\<close> a line the
  accumulator hands out, and \<open>'w\<close> the workspace (the documents and whatever else the
  collaborators change).
  Every call the provider makes, every object it constructs with \<^verbatim>\<open>new\<close> and every
  line it writes to the console is appended to a trace. The fields \<^verbatim>\<open>aideAgent\<close>,
  \<^verbatim>\<open>requestHandler\<close> and \<^verbatim>\<open>_timer\<close> and the constructor's parameter properties
  hold collaborators and are not fields of the state.
\<close>

type_synonym ResponseStream = nat
type_synonym CancellationToken = nat
type_synonym WorkspaceEditRef = nat
type_synonym SidecarRequestRange = "(nat \<times> nat) \<times> (nat \<times> nat)"

datatype EditedCodeStreamingEvent = Start | End | Delta string

record EditedCodeStreamingRequest =
  edit_request_id :: string
  edit_range :: SidecarRequestRange
  fs_file_path :: string
  event :: EditedCodeStreamingEvent
  apply_directly :: bool

record EditResponse =
  r_fs_file_path :: string
  success :: bool

record SidecarApplyEditsRequest =
  ae_fs_file_path :: string
  ae_edited_content :: string
  ae_selected_range :: SidecarRequestRange
  ae_apply_directly :: bool

datatype AideAgentMode = Chat | Edit | Plan | OtherMode

datatype AideAgentScope = Selection | PinnedContext | Codebase

record AideAgentRequest =
  ar_id :: string
  ar_prompt :: string
  ar_mode :: AideAgentMode
  ar_scope :: AideAgentScope
  ar_references :: "string list"

record PlanStep =
  ps_index :: int
  ps_content :: string

record Plan =
  plan_sessionId :: string
  plan_steps :: "PlanStep list"

text \<open>
  The index of a plan action is the number that \<^verbatim>\<open>parseInt(indexStr, 10)\<close> makes of a
  string of digits: a non-negative integer that a double holds, or \<^verbatim>\<open>Infinity\<close> when
  the digits are too many. \<^verbatim>\<open>parseInt\<close> and the rendering of a number in a template
  string belong to the language and are fields of the collaborators.
\<close>

datatype number = Integer nat | Infinity

record PlanActionRequest =
  pa_type :: string
  pa_index :: "number option"

text \<open>
  Modelled from the spec: the class \<^verbatim>\<open>Limiter\<close> of \<^verbatim>\<open>server/applyEdits\<close> is missing. The
  spec calls the provider's \<^verbatim>\<open>new Limiter(1)\<close> a single-slot limiter: a limiter is given
  by its number of slots, the argument of its constructor.
\<close>

datatype Limiter = Limiter nat

datatype constructed =
    WorkspaceEditObj | MapObj | LimiterObj nat | PromiseObj | AnswerSplitterObj
  | StreamProcessorObj | PositionObj | ErrorObj string

datatype logarg =
    LStr string | LNum nat | LRange SidecarRequestRange | LLines "string list"
  | LEvent AideAgentRequest | LPlanAction PlanActionRequest | LError error

datatype 'l effect =
    ConsoleLog "logarg list"
  | ConsoleError "logarg list"
  | New constructed
  | HttpCreateServer
  | NetCreateServer nat
  | Listen nat
  | CreateChatParticipant string
  | SendContextRecording "string list" "string option"
  | OpenTextDocument string
  | ProcessLine string 'l
  | Cleanup string
  | WorkspaceSave string
  | ApplyEditsDirectly SidecarApplyEditsRequest
  | ApplyEdits SidecarApplyEditsRequest ResponseStream WorkspaceEditRef
  | InitResponse string
  | StreamClose ResponseStream
  | FollowupQuestion string string string "string list" "string list" string
  | ReportFromStreamToSearchProgress ResponseStream CancellationToken string
  | StartAgentCodeEdit string "string list" string string bool bool
  | ReportAgentEventsToChat bool ResponseStream string CancellationToken WorkspaceEditRef Limiter
  | StreamCodeEdit ResponseStream string "nat \<times> nat" string
  | CreatePlanRequest string string "string list" string
  | AppendPlanRequest string string string "string list"
  | DropPlanFromRequest "number option" string
  | ExecutePlanUntilRequest "number option" string string
  | StreamStep ResponseStream string bool PlanStep
  | AgentDispose

record StreamProcessorArgs =
  sp_progress :: "ResponseStream option"
  sp_lines :: "string list"
  sp_uri :: string
  sp_range :: SidecarRequestRange
  sp_iterationEdits :: WorkspaceEditRef
  sp_applyDirectly :: bool
  sp_uniqueId :: nat

record ('a, 'p, 'l, 'w) collaborators =
  new_AnswerSplitter :: 'a
  addDelta :: "'a \<Rightarrow> string \<Rightarrow> 'a"
  getLine :: "'a \<Rightarrow> 'l option \<times> 'a"
  new_StreamProcessor :: "StreamProcessorArgs \<Rightarrow> 'p"
  processLine :: "'p \<Rightarrow> 'l \<Rightarrow> 'w \<Rightarrow> 'p \<times> 'w"
  cleanup :: "'p \<Rightarrow> 'w \<Rightarrow> 'p \<times> 'w"
  openTextDocument :: "'w \<Rightarrow> string \<Rightarrow> error + string option"
  perform :: "'l effect \<Rightarrow> 'w \<Rightarrow> 'w"
  Date_now :: nat
  isPortOpen :: "nat \<Rightarrow> bool"
  initResponse :: "string \<Rightarrow> (ResponseStream \<times> CancellationToken) option"
  applyEdits :: "SidecarApplyEditsRequest \<Rightarrow> 'w \<Rightarrow> EditResponse"
  planResponse :: "'l effect \<Rightarrow> 'w \<Rightarrow> error + Plan option"
  currentRepoRef :: string
  projectLabels :: "string list"
  workingDirectory :: string
  parseInt :: "string \<Rightarrow> number"
  numberToString :: "number \<Rightarrow> string"

record ('a, 'p) EditsManager =
  answerSplitter :: 'a
  streamProcessor :: 'p

record ('a, 'p, 'l) AideAgentSessionProvider =
  editorUrl :: "string option"
  iterationEdits :: WorkspaceEditRef
  editsMap :: "string \<rightharpoonup> ('a, 'p) EditsManager"
  eventQueue :: "AideAgentRequest list"
  limiter :: Limiter
  openResponseStream :: "ResponseStream option"
  processingEvents :: "string \<rightharpoonup> bool"
  sessionId :: "string option"
  editCounter :: nat
  trace :: "'l effect list"

text \<open>
  Appending to the trace; a call of a collaborator that returns nothing the provider uses
  is appended and performed on the workspace.
\<close>

definition emit ::
  "'l effect list \<Rightarrow> ('a, 'p, 'l) AideAgentSessionProvider \<Rightarrow> ('a, 'p, 'l) AideAgentSessionProvider" where
  "emit es st = st\<lparr>trace := trace st @ es\<rparr>"

definition call ::
  "('a, 'p, 'l, 'w) collaborators \<Rightarrow> 'l effect
     \<Rightarrow> ('a, 'p, 'l) AideAgentSessionProvider \<times> 'w \<Rightarrow> ('a, 'p, 'l) AideAgentSessionProvider \<times> 'w" where
  "call C e sw = (emit [e] (fst sw), perform C e (snd sw))"

text \<open>
  \<^verbatim>\<open>text.split(/\r\n|\r|\n/g)\<close>: the pieces between line terminators, the last one
  included even when it is empty.
\<close>

fun splitLinesFrom :: "string \<Rightarrow> string \<Rightarrow> string list" where
  "splitLinesFrom cur [] = [cur]"
| "splitLinesFrom cur [c] =
     (if c = CHR 0x0D \<or> c = CHR 0x0A then [cur, []] else [cur @ [c]])"
| "splitLinesFrom cur (c # d # cs) =
     (if c = CHR 0x0D \<and> d = CHR 0x0A then cur # splitLinesFrom [] cs
      else if c = CHR 0x0D \<or> c = CHR 0x0A then cur # splitLinesFrom [] (d # cs)
      else splitLinesFrom (cur @ [c]) (d # cs))"

definition splitLines :: "string \<Rightarrow> string list" where
  "splitLines text = splitLinesFrom [] text"

text \<open>
  The two \<^verbatim>\<open>while (true)\<close> loops of \<^verbatim>\<open>provideEditStreamed\<close>: take a line from the
  accumulator, stop when it is \<^verbatim>\<open>null\<close>, otherwise have the stream processor process
  it. Nothing in the provider bounds the number of rounds, so the loop is a partial
  function: \<open>None\<close> is a loop that does not end.
\<close>

partial_function (option) drainLines ::
  "('a, 'p, 'l, 'w) collaborators \<Rightarrow> string \<Rightarrow> 'a \<times> 'p \<times> 'w \<times> 'l effect list
     \<Rightarrow> ('a \<times> 'p \<times> 'w \<times> 'l effect list) option" where
  "drainLines C rid s =
     (case s of (a, p, w, tr) \<Rightarrow>
        (case getLine C a of
           (None, a') \<Rightarrow> Some (a', p, w, tr)
         | (Some currentLine, a') \<Rightarrow>
             (case processLine C p currentLine w of
                (p', w') \<Rightarrow> drainLines C rid (a', p', w', tr @ [ProcessLine rid currentLine]))))"

definition provideEditStreamed ::
  "('a, 'p, 'l, 'w) collaborators \<Rightarrow> ('a, 'p, 'l) AideAgentSessionProvider \<times> 'w
     \<Rightarrow> EditedCodeStreamingRequest
     \<Rightarrow> ((error + EditResponse) \<times> ('a, 'p, 'l) AideAgentSessionProvider \<times> 'w) option" where
  "provideEditStreamed C sw request =
     (let st = fst sw; w = snd sw in
      if \<not> apply_directly request \<and> openResponseStream st = None then
        Some (Inr \<lparr>r_fs_file_path = [], success = False\<rparr>,
              emit [ConsoleLog [LStr ''editing_streamed::no_open_response_stream'']] st, w)
      else
        let fileDocument = fs_file_path request in
        case event request of
          Start \<Rightarrow>
            (let timeNow = Date_now C;
                 st1 = emit [OpenTextDocument fileDocument] st
             in case openTextDocument C w fileDocument of
                  Inl e \<Rightarrow> Some (Inl e, st1, w)
                | Inr None \<Rightarrow> Some (Inr \<lparr>r_fs_file_path = [], success = False\<rparr>, st1, w)
                | Inr (Some text) \<Rightarrow>
                    let documentLines = splitLines text;
                        st2 = emit [ConsoleLog [LStr ''editsStreamed::content'', LNum timeNow, LStr text],
                                    ConsoleLog [LStr ''editStreaming.start'', LStr (fs_file_path request)],
                                    ConsoleLog [LRange (edit_range request)],
                                    ConsoleLog [LLines documentLines],
                                    New AnswerSplitterObj, New StreamProcessorObj] st1;
                        manager = \<lparr>answerSplitter = new_AnswerSplitter C,
                                   streamProcessor = new_StreamProcessor C
                                     \<lparr>sp_progress = openResponseStream st, sp_lines = documentLines,
                                      sp_uri = fs_file_path request, sp_range = edit_range request,
                                      sp_iterationEdits = iterationEdits st,
                                      sp_applyDirectly = apply_directly request,
                                      sp_uniqueId = editCounter st\<rparr>\<rparr>
                    in Some (Inr \<lparr>r_fs_file_path = [], success = True\<rparr>,
                             st2\<lparr>editsMap := (editsMap st2)(edit_request_id request \<mapsto> manager)\<rparr>, w))
        | End \<Rightarrow>
            (case editsMap st (edit_request_id request) of
               None \<Rightarrow> Some (Inl (TypeError ''Cannot read properties of undefined''), st, w)
             | Some editsManager \<Rightarrow>
                 (case drainLines C (edit_request_id request)
                         (answerSplitter editsManager, streamProcessor editsManager, w, trace st) of
                    None \<Rightarrow> None
                  | Some (a', p', w', tr') \<Rightarrow>
                      (case cleanup C p' w' of
                         (p'', w'') \<Rightarrow>
                           let st1 = st\<lparr>editsMap := (editsMap st)(edit_request_id request \<mapsto>
                                          \<lparr>answerSplitter = a', streamProcessor = p''\<rparr>),
                                        trace := tr' @ [Cleanup (edit_request_id request)]\<rparr>;
                               sw2 = call C (WorkspaceSave (fs_file_path request)) (st1, w'');
                               st3 = emit [ConsoleLog [LStr ''provideEditsStreamed::finished'',
                                                       LStr (fs_file_path request)]] (fst sw2);
                               st4 = st3\<lparr>editsMap := (editsMap st3)(edit_request_id request := None)\<rparr>;
                               st5 = st4\<lparr>editCounter := editCounter st4 + 1\<rparr>
                           in Some (Inr \<lparr>r_fs_file_path = [], success = True\<rparr>, st5, snd sw2))))
        | Delta delta \<Rightarrow>
            if delta \<noteq> [] then
              (case editsMap st (edit_request_id request) of
                 None \<Rightarrow> Some (Inr \<lparr>r_fs_file_path = [], success = True\<rparr>, st, w)
               | Some editsManager \<Rightarrow>
                   (case drainLines C (edit_request_id request)
                           (addDelta C (answerSplitter editsManager) delta,
                            streamProcessor editsManager, w, trace st) of
                      None \<Rightarrow> None
                    | Some (a', p', w', tr') \<Rightarrow>
                        Some (Inr \<lparr>r_fs_file_path = [], success = True\<rparr>,
                              st\<lparr>editsMap := (editsMap st)(edit_request_id request \<mapsto>
                                    \<lparr>answerSplitter = a', streamProcessor = p'\<rparr>),
                                 trace := tr'\<rparr>, w')))
            else Some (Inr \<lparr>r_fs_file_path = [], success = True\<rparr>, st, w))"

text \<open>
  What the accumulator hands out: \<open>yields g a ls a'\<close> says that successive calls of
  \<open>g\<close> (the accumulator's \<^verbatim>\<open>getLine\<close>) from state \<open>a\<close> return the lines \<open>ls\<close>,
  in this order, and then \<^verbatim>\<open>null\<close>, leaving the accumulator in state \<open>a'\<close>.
  \<open>processLines\<close> is the stream processor processing a list of lines from the left.
\<close>

fun yields :: "('a \<Rightarrow> 'l option \<times> 'a) \<Rightarrow> 'a \<Rightarrow> 'l list \<Rightarrow> 'a \<Rightarrow> bool" where
  "yields g a [] a' = (g a = (None, a'))"
| "yields g a (l # ls) a' = (fst (g a) = Some l \<and> yields g (snd (g a)) ls a')"

fun processLines :: "('a, 'p, 'l, 'w) collaborators \<Rightarrow> 'p \<Rightarrow> 'l list \<Rightarrow> 'w \<Rightarrow> 'p \<times> 'w" where
  "processLines C p [] w = (p, w)"
| "processLines C p (l # ls) w = processLines C (fst (processLine C p l w)) ls (snd (processLine C p l w))"

subsection \<open>An instance of the collaborators for the evaluations below\<close>

text \<open>
  A line accumulator that keeps the unfinished text and a queue of the lines completed by
  a newline; a stream processor that counts the lines it is given and appends each to the
  document of its \<open>sp_uri\<close>; a workspace that maps a path to the lines of its document.
  Opening a path the workspace does not have resolves to \<^verbatim>\<open>undefined\<close>, and opening
  the empty path is rejected. Numbers are parsed and rendered in decimal digits, which is
  what the language does for the integers below \<open>2^53\<close>; the evaluations use no others.
\<close>

fun showNat :: "nat \<Rightarrow> string" where
  "showNat n =
     (if n < 10 then [char_of (48 + n)]
      else showNat (n div 10) @ [char_of (48 + n mod 10)])"

declare showNat.simps [simp del]

definition ex_parseInt :: "string \<Rightarrow> number" where
  "ex_parseInt digits = Integer (foldl (\<lambda>n c. 10 * n + ((of_char c :: nat) - 48)) 0 digits)"

definition ex_numberToString :: "number \<Rightarrow> string" where
  "ex_numberToString n = (case n of Integer k \<Rightarrow> showNat k | Infinity \<Rightarrow> ''Infinity'')"

fun splitComplete :: "string \<Rightarrow> string \<Rightarrow> string list \<times> string" where
  "splitComplete cur [] = ([], cur)"
| "splitComplete cur (c # cs) =
     (if c = CHR 0x0A then (cur # fst (splitComplete [] cs), snd (splitComplete [] cs))
      else splitComplete (cur @ [c]) cs)"

definition ex_addDelta :: "string \<times> string list \<Rightarrow> string \<Rightarrow> string \<times> string list" where
  "ex_addDelta a delta =
     (snd (splitComplete (fst a) delta), snd a @ fst (splitComplete (fst a) delta))"

definition ex_getLine :: "string \<times> string list \<Rightarrow> string option \<times> (string \<times> string list)" where
  "ex_getLine a = (case snd a of [] \<Rightarrow> (None, a) | l # ls \<Rightarrow> (Some l, (fst a, ls)))"

definition ex_processLine ::
  "string \<times> nat \<Rightarrow> string \<Rightarrow> (string \<rightharpoonup> string list) \<Rightarrow> (string \<times> nat) \<times> (string \<rightharpoonup> string list)" where
  "ex_processLine p l w =
     ((fst p, Suc (snd p)),
      w(fst p \<mapsto> (case w (fst p) of None \<Rightarrow> [l] | Some ls \<Rightarrow> ls @ [l])))"

definition ex_openTextDocument :: "(string \<rightharpoonup> string list) \<Rightarrow> string \<Rightarrow> error + string option" where
  "ex_openTextDocument w path =
     (if path = [] then Inl (Error ''cannot open'')
      else case w path of None \<Rightarrow> Inr None | Some ls \<Rightarrow> Inr (Some (concat ls)))"

definition ex_collab ::
  "(string \<times> string list, string \<times> nat, string, string \<rightharpoonup> string list) collaborators" where
  "ex_collab =
     \<lparr>new_AnswerSplitter = ([], []),
      addDelta = ex_addDelta,
      getLine = ex_getLine,
      new_StreamProcessor = (\<lambda>args. (sp_uri args, 0)),
      processLine = ex_processLine,
      cleanup = (\<lambda>p w. (p, w)),
      openTextDocument = ex_openTextDocument,
      perform = (\<lambda>e w. w),
      Date_now = 0,
      isPortOpen = (\<lambda>port. port = 42429),
      initResponse = (\<lambda>session. Some (7, 8)),
      applyEdits = (\<lambda>request w. \<lparr>r_fs_file_path = ae_fs_file_path request, success = True\<rparr>),
      planResponse = (\<lambda>e w. Inr None),
      currentRepoRef = ''/work'',
      projectLabels = [],
      workingDirectory = ''/work'',
      parseInt = ex_parseInt,
      numberToString = ex_numberToString\<rparr>"

definition ex_provider :: "(string \<times> string list, string \<times> nat, string) AideAgentSessionProvider" where
  "ex_provider =
     \<lparr>editorUrl = Some ''http://localhost:42429'', iterationEdits = 0, editsMap = Map.empty,
      eventQueue = [], limiter = Limiter 1, openResponseStream = None,
      processingEvents = Map.empty, sessionId = None, editCounter = 0, trace = []\<rparr>"

definition ex_workspace :: "string \<rightharpoonup> string list" where
  "ex_workspace = [''/work/a.ts'' \<mapsto> [''x'']]"

definition ex_request :: "EditedCodeStreamingEvent \<Rightarrow> EditedCodeStreamingRequest" where
  "ex_request ev =
     \<lparr>edit_request_id = ''e1'', edit_range = ((0, 0), (0, 1)), fs_file_path = ''/work/a.ts'',
      event = ev, apply_directly = True\<rparr>"

definition ex_registered :: "(string \<times> string list, string \<times> nat, string) AideAgentSessionProvider" where
  "ex_registered =
     ex_provider\<lparr>editsMap := [''e1'' \<mapsto> \<lparr>answerSplitter = ([], []),
                                            streamProcessor = (''/work/a.ts'', 0)\<rparr>]\<rparr>"

definition ex_buffered :: "(string \<times> string list, string \<times> nat, string) AideAgentSessionProvider" where
  "ex_buffered =
     ex_provider\<lparr>editsMap := [''e1'' \<mapsto> \<lparr>answerSplitter = (''c'', [''d'']),
                                            streamProcessor = (''/work/a.ts'', 2)\<rparr>]\<rparr>"

definition ex_delta :: string where
  "ex_delta = [CHR ''a'', CHR 0x0A, CHR ''b'', CHR 0x0A, CHR ''c'']"

subsection \<open>The other methods of the provider\<close>

text \<open>
  \<^verbatim>\<open>getNextOpenPort\<close> probes the ports from \<^verbatim>\<open>startFrom\<close> up to 65534 and returns
  the first open one, or \<^verbatim>\<open>null\<close>; inside the loop \<^verbatim>\<open>openPort\<close> is still \<^verbatim>\<open>null\<close>,
  so the loop's condition is \<^verbatim>\<open>startFrom < 65535\<close>. Each probe is a call of
  \<^verbatim>\<open>isPortOpen\<close>, which constructs a promise and a server. The result comes with the
  list of the ports probed.
\<close>

function getNextOpenPort :: "(nat \<Rightarrow> bool) \<Rightarrow> nat \<Rightarrow> nat option \<times> nat list" where
  "getNextOpenPort isOpen startFrom =
     (if startFrom < 65535 then
        (if isOpen startFrom then (Some startFrom, [startFrom])
         else (fst (getNextOpenPort isOpen (Suc startFrom)),
               startFrom # snd (getNextOpenPort isOpen (Suc startFrom))))
      else (None, []))"
  by pat_completeness auto
termination
  by (relation "measure (\<lambda>(isOpen, startFrom). 65535 - startFrom)") auto

declare getNextOpenPort.simps [simp del]

text \<open>
  The constructor: the field initialisers in the order of their declaration, then the
  body. \<open>edits\<close> is the reference of the new \<^verbatim>\<open>WorkspaceEdit\<close>. The call of
  \<^verbatim>\<open>getNextOpenPort()\<close> in the body runs up to its first \<^verbatim>\<open>await\<close>, which is the
  probe of port 42427, before the chat participant is created. The rest of the probes and
  the callback of \<^verbatim>\<open>then\<close> run later and are the operation \<open>listenOnOpenPort\<close>.
\<close>

definition new_AideAgentSessionProvider ::
  "WorkspaceEditRef \<Rightarrow> ('a, 'p, 'l) AideAgentSessionProvider" where
  "new_AideAgentSessionProvider edits =
     \<lparr>editorUrl = None, iterationEdits = edits, editsMap = Map.empty, eventQueue = [],
      limiter = Limiter 1, openResponseStream = None, processingEvents = Map.empty,
      sessionId = None, editCounter = 0,
      trace = [New WorkspaceEditObj, New MapObj, New (LimiterObj 1), New MapObj,
               HttpCreateServer, New PromiseObj, NetCreateServer 42427,
               CreateChatParticipant ''aide'']\<rparr>"

definition probeEffects :: "nat list \<Rightarrow> 'l effect list" where
  "probeEffects ports = concat (map (\<lambda>port. [New PromiseObj, NetCreateServer port]) ports)"

definition listenOnOpenPort ::
  "('a, 'p, 'l, 'w) collaborators \<Rightarrow> ('a, 'p, 'l) AideAgentSessionProvider
     \<Rightarrow> error option \<times> ('a, 'p, 'l) AideAgentSessionProvider" where
  "listenOnOpenPort C st =
     (case getNextOpenPort (isPortOpen C) 42427 of
        (None, probed) \<Rightarrow>
          (Some (Error ''Could not find an open port''),
           emit (probeEffects (tl probed) @ [New (ErrorObj ''Could not find an open port'')]) st)
      | (Some port, probed) \<Rightarrow>
          (None,
           (emit (probeEffects (tl probed) @ [Listen port]) st)
             \<lparr>editorUrl := Some (''http://localhost:'' @ numberToString C (Integer port))\<rparr>))"

definition sendContextRecording ::
  "('a, 'p, 'l, 'w) collaborators \<Rightarrow> ('a, 'p, 'l) AideAgentSessionProvider \<times> 'w \<Rightarrow> string list
     \<Rightarrow> ('a, 'p, 'l) AideAgentSessionProvider \<times> 'w" where
  "sendContextRecording C sw events = call C (SendContextRecording events (editorUrl (fst sw))) sw"

definition provideEdit ::
  "('a, 'p, 'l, 'w) collaborators \<Rightarrow> ('a, 'p, 'l) AideAgentSessionProvider \<times> 'w
     \<Rightarrow> SidecarApplyEditsRequest
     \<Rightarrow> EditResponse \<times> ('a, 'p, 'l) AideAgentSessionProvider \<times> 'w" where
  "provideEdit C sw request =
     (if ae_apply_directly request then
        (\<lparr>r_fs_file_path = ae_fs_file_path request, success = True\<rparr>,
         call C (ApplyEditsDirectly request) sw)
      else case openResponseStream (fst sw) of
             None \<Rightarrow>
               (\<lparr>r_fs_file_path = ae_fs_file_path request, success = True\<rparr>,
                emit [ConsoleLog [LStr ''returning early over here'']] (fst sw), snd sw)
           | Some stream \<Rightarrow>
               (applyEdits C request (snd sw),
                call C (ApplyEdits request stream (iterationEdits (fst sw))) sw))"

definition newSession ::
  "('a, 'p, 'l) AideAgentSessionProvider \<Rightarrow> string \<Rightarrow> ('a, 'p, 'l) AideAgentSessionProvider" where
  "newSession st sid = st\<lparr>sessionId := Some sid\<rparr>"

definition dispose ::
  "('a, 'p, 'l, 'w) collaborators \<Rightarrow> ('a, 'p, 'l) AideAgentSessionProvider \<times> 'w
     \<Rightarrow> ('a, 'p, 'l) AideAgentSessionProvider \<times> 'w" where
  "dispose C sw = call C AgentDispose sw"

text \<open>
  \<^verbatim>\<open>parsePlanActionCommand\<close>. The regular expression \<^verbatim>\<open>/^@(\w+)(?:\s+(\d+))?$/\<close>
  matches an \<^verbatim>\<open>@\<close>, the longest run of word characters, which must not be empty, and
  then either the end of the command or white space followed by digits up to the end.
  Characters are those of one byte.
\<close>

definition isWordChar :: "char \<Rightarrow> bool" where
  "isWordChar c \<longleftrightarrow>
     c \<in> set ''abcdefghijklmnopqrstuvwxyzABCDEFGHIJKLMNOPQRSTUVWXYZ0123456789_''"

definition isDigit :: "char \<Rightarrow> bool" where
  "isDigit c \<longleftrightarrow> c \<in> set ''0123456789''"

definition isSpace :: "char \<Rightarrow> bool" where
  "isSpace c \<longleftrightarrow>
     c \<in> set [CHR 0x20, CHR 0x09, CHR 0x0A, CHR 0x0B, CHR 0x0C, CHR 0x0D, CHR 0xA0]"

definition toUpperCase :: "string \<Rightarrow> string" where
  "toUpperCase s =
     map (\<lambda>c. if 97 \<le> (of_char c :: nat) \<and> (of_char c :: nat) \<le> 122
               then char_of ((of_char c :: nat) - 32) else c) s"

definition matchPlanCommand :: "string \<Rightarrow> (string \<times> string option) option" where
  "matchPlanCommand command =
     (case command of
        [] \<Rightarrow> None
      | c # rest \<Rightarrow>
          if c \<noteq> CHR ''@'' then None
          else
            let action = takeWhile isWordChar rest;
                after = dropWhile isWordChar rest
            in if action = [] then None
               else if after = [] then Some (action, None)
               else
                 let digits = dropWhile isSpace after
                 in if takeWhile isSpace after \<noteq> [] \<and> digits \<noteq> [] \<and> list_all isDigit digits
                    then Some (action, Some digits)
                    else None)"

definition parsePlanActionCommand ::
  "(string \<Rightarrow> number) \<Rightarrow> string \<Rightarrow> error + PlanActionRequest" where
  "parsePlanActionCommand parseInt10 command =
     (case matchPlanCommand command of
        None \<Rightarrow> Inr \<lparr>pa_type = ''CREATE'', pa_index = None\<rparr>
      | Some (action, indexStr) \<Rightarrow>
          let actionType = toUpperCase action
          in if actionType = ''DROP'' \<or> actionType = ''EXECUTE'' then
               (case indexStr of
                  None \<Rightarrow> Inl (Error (''Index is required for '' @ actionType @ '' action''))
                | Some digits \<Rightarrow> Inr \<lparr>pa_type = actionType, pa_index = Some (parseInt10 digits)\<rparr>)
             else Inr \<lparr>pa_type = actionType, pa_index = None\<rparr>)"

text \<open>
  \<^verbatim>\<open>generateResponse\<close>. The first component of the result is the error of a rejected
  call of the sidecar, if there is one. An index that is \<^verbatim>\<open>undefined\<close> is rendered
  as such by the template string.
\<close>

definition renderIndex :: "('a, 'p, 'l, 'w) collaborators \<Rightarrow> number option \<Rightarrow> string" where
  "renderIndex C index = (case index of None \<Rightarrow> ''undefined'' | Some n \<Rightarrow> numberToString C n)"

definition planSteps :: "ResponseStream \<Rightarrow> Plan \<Rightarrow> 'l effect list" where
  "planSteps responseStream plan =
     map (\<lambda>planItem. StreamStep responseStream (plan_sessionId plan)
                        (ps_index planItem = int (length (plan_steps plan)) - 1) planItem)
         (plan_steps plan)"

definition askPlan ::
  "('a, 'p, 'l, 'w) collaborators \<Rightarrow> 'l effect \<Rightarrow> ResponseStream
     \<Rightarrow> ('a, 'p, 'l) AideAgentSessionProvider \<times> 'w
     \<Rightarrow> error option \<times> ('a, 'p, 'l) AideAgentSessionProvider \<times> 'w" where
  "askPlan C e responseStream sw =
     (case planResponse C e (snd sw) of
        Inl err \<Rightarrow> (Some err, call C e sw)
      | Inr None \<Rightarrow> (None, call C e sw)
      | Inr (Some plan) \<Rightarrow>
          (None, foldl (\<lambda>sw' step. call C step sw') (call C e sw) (planSteps responseStream plan)))"

definition generateResponse ::
  "('a, 'p, 'l, 'w) collaborators \<Rightarrow> ('a, 'p, 'l) AideAgentSessionProvider \<times> 'w \<Rightarrow> string
     \<Rightarrow> AideAgentRequest \<Rightarrow> ResponseStream \<Rightarrow> CancellationToken
     \<Rightarrow> error option \<times> ('a, 'p, 'l) AideAgentSessionProvider \<times> 'w" where
  "generateResponse C sw sid ev responseStream token =
     (case editorUrl (fst sw) of
        None \<Rightarrow> (None, call C (StreamClose responseStream) sw)
      | Some url \<Rightarrow>
          if url = [] then (None, call C (StreamClose responseStream) sw)
          else
            let sw1 = ((fst sw)\<lparr>openResponseStream := Some responseStream\<rparr>, snd sw);
                query = ar_prompt ev
            in case ar_mode ev of
                 Chat \<Rightarrow>
                   (None,
                    call C (ReportFromStreamToSearchProgress responseStream token (workingDirectory C))
                      (call C (FollowupQuestion query (currentRepoRef C) sid (ar_references ev)
                                 (projectLabels C) url) sw1))
               | Edit \<Rightarrow>
                   let isAnchorEditing = (ar_scope ev = Selection);
                       isWholeCodebase = (ar_scope ev = Codebase)
                   in (None,
                       call C (ReportAgentEventsToChat True responseStream sid token
                                 (iterationEdits (fst sw1)) (limiter (fst sw1)))
                         (call C (StartAgentCodeEdit query (ar_references ev) url sid
                                    isWholeCodebase isAnchorEditing) sw1))
               | Plan \<Rightarrow>
                   let sw2 = (emit [ConsoleLog [LEvent ev]] (fst sw1), snd sw1);
                       parsed = parsePlanActionCommand (parseInt C) (ar_prompt ev);
                       planActionRequest =
                         (case parsed of
                            Inl e \<Rightarrow> \<lparr>pa_type = ''CREATE'', pa_index = None\<rparr>
                          | Inr r \<Rightarrow> r);
                       sw3 = (case parsed of
                                Inl e \<Rightarrow>
                                  (emit [ConsoleError [LError e],
                                         ConsoleLog [LStr ''this implicitly means that we are doing CREATE'']]
                                     (fst sw2), snd sw2)
                              | Inr r \<Rightarrow> sw2);
                       sw4 = (emit [ConsoleLog [LPlanAction planActionRequest]] (fst sw3), snd sw3);
                       sw5 = (if pa_type planActionRequest = ''DROP'' then
                                call C (StreamCodeEdit responseStream ''undoCheck'' (0, 0)
                                          (renderIndex C (pa_index planActionRequest)))
                                  (emit [New WorkspaceEditObj, New PositionObj] (fst sw4), snd sw4)
                              else sw4)
                   in if pa_type planActionRequest = ''CREATE'' then
                        askPlan C (CreatePlanRequest query sid (ar_references ev) url) responseStream
                          (emit [ConsoleLog [LStr ''create hit'']] (fst sw5), snd sw5)
                      else if pa_type planActionRequest = ''APPEND'' then
                        askPlan C (AppendPlanRequest query sid url (ar_references ev)) responseStream
                          (emit [ConsoleLog [LStr ''append hit'']] (fst sw5), snd sw5)
                      else if pa_type planActionRequest = ''DROP'' then
                        askPlan C (DropPlanFromRequest (pa_index planActionRequest) sid) responseStream
                          (emit [ConsoleLog [LStr ''drop hit'']] (fst sw5), snd sw5)
                      else if pa_type planActionRequest = ''EXECUTE'' then
                        (None,
                         call C (ExecutePlanUntilRequest (pa_index planActionRequest) sid url)
                           (emit [ConsoleLog [LStr ''execute hit'']] (fst sw5), snd sw5))
                      else (None, sw5)
               | OtherMode \<Rightarrow> (None, sw1))"

text \<open>
  \<^verbatim>\<open>processEvent\<close> and \<^verbatim>\<open>handleEvent\<close>. \<^verbatim>\<open>handleEvent\<close> does not wait for
  \<^verbatim>\<open>processEvent\<close>, so a rejection inside it is lost; the entry of
  \<^verbatim>\<open>processingEvents\<close> is deleted only when \<^verbatim>\<open>generateResponse\<close> has returned. A
  session id is false in a condition when it is \<^verbatim>\<open>undefined\<close> or the empty string.
\<close>

definition processEvent ::
  "('a, 'p, 'l, 'w) collaborators \<Rightarrow> ('a, 'p, 'l) AideAgentSessionProvider \<times> 'w
     \<Rightarrow> AideAgentRequest \<Rightarrow> ('a, 'p, 'l) AideAgentSessionProvider \<times> 'w" where
  "processEvent C sw ev =
     (case sessionId (fst sw) of
        None \<Rightarrow> sw
      | Some sid \<Rightarrow>
          if sid = [] then sw
          else
            let sw1 = call C (InitResponse sid) sw
            in case initResponse C sid of
                 None \<Rightarrow> sw1
               | Some (stream, token) \<Rightarrow>
                   (case generateResponse C sw1 sid ev stream token of
                      (Some err, sw2) \<Rightarrow> sw2
                    | (None, sw2) \<Rightarrow>
                        ((fst sw2)\<lparr>processingEvents :=
                                     (processingEvents (fst sw2))(ar_id ev := None)\<rparr>,
                         snd sw2)))"

definition handleEvent ::
  "('a, 'p, 'l, 'w) collaborators \<Rightarrow> ('a, 'p, 'l) AideAgentSessionProvider \<times> 'w
     \<Rightarrow> AideAgentRequest \<Rightarrow> ('a, 'p, 'l) AideAgentSessionProvider \<times> 'w" where
  "handleEvent C sw ev =
     (let st1 = (fst sw)\<lparr>eventQueue := eventQueue (fst sw) @ [ev]\<rparr>
      in if sessionId st1 \<noteq> None \<and> sessionId st1 \<noteq> Some []
            \<and> processingEvents st1 (ar_id ev) = None
         then processEvent C
                (st1\<lparr>processingEvents := (processingEvents st1)(ar_id ev \<mapsto> True)\<rparr>, snd sw) ev
         else (st1, snd sw))"

text \<open>
  The operations on a provider, and a run: the constructor followed by any sequence of
  operations. A run has no result when a drain loop of \<^verbatim>\<open>provideEditStreamed\<close> does
  not end.
\<close>

datatype operation =
    ListenOnOpenPort
  | SendContextRecordingOp "string list"
  | ProvideEditStreamedOp EditedCodeStreamingRequest
  | ProvideEditOp SidecarApplyEditsRequest
  | NewSessionOp string
  | HandleEventOp AideAgentRequest
  | DisposeOp

definition step ::
  "('a, 'p, 'l, 'w) collaborators \<Rightarrow> ('a, 'p, 'l) AideAgentSessionProvider \<times> 'w \<Rightarrow> operation
     \<Rightarrow> (('a, 'p, 'l) AideAgentSessionProvider \<times> 'w) option" where
  "step C sw operation =
     (case operation of
        ListenOnOpenPort \<Rightarrow> Some (snd (listenOnOpenPort C (fst sw)), snd sw)
      | SendContextRecordingOp events \<Rightarrow> Some (sendContextRecording C sw events)
      | ProvideEditStreamedOp request \<Rightarrow> map_option snd (provideEditStreamed C sw request)
      | ProvideEditOp request \<Rightarrow> Some (snd (provideEdit C sw request))
      | NewSessionOp sid \<Rightarrow> Some (newSession (fst sw) sid, snd sw)
      | HandleEventOp ev \<Rightarrow> Some (handleEvent C sw ev)
      | DisposeOp \<Rightarrow> Some (dispose C sw))"

fun run ::
  "('a, 'p, 'l, 'w) collaborators \<Rightarrow> ('a, 'p, 'l) AideAgentSessionProvider \<times> 'w \<Rightarrow> operation list
     \<Rightarrow> (('a, 'p, 'l) AideAgentSessionProvider \<times> 'w) option" where
  "run C sw [] = Some sw"
| "run C sw (operation # operations) =
     (case step C sw operation of None \<Rightarrow> None | Some sw' \<Rightarrow> run C sw' operations)"

text \<open>
  The limiters a trace constructs (the arguments of \<^verbatim>\<open>new Limiter\<close>) and the limiters
  it passes to \<^verbatim>\<open>reportAgentEventsToChat\<close>.
\<close>

fun limitersConstructed :: "'l effect list \<Rightarrow> nat list" where
  "limitersConstructed [] = []"
| "limitersConstructed (New (LimiterObj n) # es) = n # limitersConstructed es"
| "limitersConstructed (e # es) = limitersConstructed es"

fun limitersPassed :: "'l effect list \<Rightarrow> Limiter list" where
  "limitersPassed [] = []"
| "limitersPassed (ReportAgentEventsToChat b stream sid token edits passed # es) = passed # limitersPassed es"
| "limitersPassed (e # es) = limitersPassed es"

text \<open>
  For the proofs: an effect list is \<open>quiet\<close> when it constructs no limiter and passes
  only the limiter \<open>l\<close>; a provider \<open>extends\<close> another when it has the same limiter and
  its trace is the other's followed by a quiet list. \<open>askPlanEffects\<close> lists the effects
  of \<open>askPlan\<close>.
\<close>

definition quiet :: "Limiter \<Rightarrow> 'l effect list \<Rightarrow> bool" where
  "quiet l es \<longleftrightarrow> limitersConstructed es = [] \<and> set (limitersPassed es) \<subseteq> {l}"

definition extends ::
  "('a, 'p, 'l) AideAgentSessionProvider \<Rightarrow> ('a, 'p, 'l) AideAgentSessionProvider \<Rightarrow> bool" where
  "extends st st' \<longleftrightarrow>
     limiter st' = limiter st \<and> (\<exists>es. trace st' = trace st @ es \<and> quiet (limiter st) es)"

definition askPlanEffects ::
  "('a, 'p, 'l, 'w) collaborators \<Rightarrow> 'l effect \<Rightarrow> ResponseStream \<Rightarrow> 'w \<Rightarrow> 'l effect list" where
  "askPlanEffects C e responseStream w =
     (case planResponse C e w of
        Inr (Some plan) \<Rightarrow> e # planSteps responseStream plan
      | _ \<Rightarrow> [e])"

definition ex_event :: AideAgentRequest where
  "ex_event = \<lparr>ar_id = ''ev1'', ar_prompt = ''fix'', ar_mode = Edit, ar_scope = Codebase,
               ar_references = []\<rparr>"

definition ex_operations :: "operation list" where
  "ex_operations = [ListenOnOpenPort, NewSessionOp ''s1'', HandleEventOp ex_event]"

definition ex_final :: "(string \<times> string list, string \<times> nat, string) AideAgentSessionProvider" where
  "ex_final =
     \<lparr>editorUrl = Some ''http://localhost:42429'', iterationEdits = 0,
      editsMap = Map.empty, eventQueue = [ex_event], limiter = Limiter 1,
      openResponseStream = Some 7, processingEvents = Map.empty,
      sessionId = Some ''s1'', editCounter = 0,
      trace = [New WorkspaceEditObj, New MapObj, New (LimiterObj 1), New MapObj,
               HttpCreateServer, New PromiseObj, NetCreateServer 42427,
               CreateChatParticipant ''aide'',
               New PromiseObj, NetCreateServer 42428,
               New PromiseObj, NetCreateServer 42429, Listen 42429,
               InitResponse ''s1'',
               StartAgentCodeEdit ''fix'' [] ''http://localhost:42429'' ''s1'' True False,
               ReportAgentEventsToChat True 7 ''s1'' 8 0 (Limiter 1)]\<rparr>"

section \<open>Properties\<close>

lemma generateDiffstats_single:
  "generateDiffstats F [(p, c)] p
     = Some (calculateDiffstat F (added c + removed c) (added c) (removed c) 5)"
  by (simp add: generateDiffstats_def Let_def)

lemma generateDiffstats_snoc:
  "generateDiffstats F (fileChanges @ [(p, c)])
     = (generateDiffstats F fileChanges)
         (p \<mapsto> calculateDiffstat F (added c + removed c) (added c) (removed c) 5)"
  by (simp add: generateDiffstats_def Let_def)

lemma generateDiffstats_zero_entry:
  assumes "map_of (rev fileChanges) p = Some c" and "added c = 0" and "removed c = 0"
  shows "generateDiffstats F fileChanges p = Some (replicate 5 ''emtpty'')"
  using assms
proof (induction fileChanges rule: rev_induct)
  case Nil
  then show ?case by simp
next
  case (snoc entry fileChanges)
  obtain q d where entry: "entry = (q, d)" by (cases entry)
  show ?case
  proof (cases "q = p")
    case True
    with snoc.prems entry have "d = c" by simp
    with True entry snoc.prems show ?thesis
      by (simp add: generateDiffstats_snoc calculateDiffstat_def)
  next
    case False
    with snoc.prems entry have "map_of (rev fileChanges) p = Some c" by simp
    from snoc.IH [OF this snoc.prems(2,3)] False entry show ?thesis
      by (simp add: generateDiffstats_snoc)
  qed
qed

text \<open>
  Claim C6. A file-changes record with one entry, whose \<^verbatim>\<open>added\<close> and \<^verbatim>\<open>removed\<close> are
  both 0, is mapped by \<^verbatim>\<open>generateDiffstats\<close> to five boxes, but each box is the string
  \<^verbatim>\<open>'emtpty'\<close> that \<^verbatim>\<open>calculateDiffstat\<close> fills in when the total is 0, not
  \<^verbatim>\<open>'empty'\<close>. By \<open>generateDiffstats_zero_entry\<close> the same holds for such an entry of
  any record.
\<close>

theorem generateDiffstats_zero_changes:
  "generateDiffstats F [(''/src/a.ts'', \<lparr>added = 0, removed = 0\<rparr>)] ''/src/a.ts''
     = Some [''emtpty'', ''emtpty'', ''emtpty'', ''emtpty'', ''emtpty'']
   \<and> generateDiffstats F [(''/src/a.ts'', \<lparr>added = 0, removed = 0\<rparr>)] ''/src/a.ts''
     \<noteq> Some (replicate 5 ''empty'')"
  by (simp add: generateDiffstats_single calculateDiffstat_def numeral_eq_Suc)






lemma findIndex_Some:
  "findIndex P xs = Some i \<Longrightarrow> i < length xs \<and> P (xs ! i)"
  by (induction xs arbitrary: i) (auto split: if_splits)

lemma findIndex_None: "findIndex P xs = None \<longleftrightarrow> (\<forall>x \<in> set xs. \<not> P x)"
  by (induction xs) auto

lemma bd_reference_overwriteFields [simp]:
  "bd_reference (overwriteFields e i) = bd_reference e"
  by (simp add: overwriteFields_def)

lemma field_writes:
  "(let h1 = (if nonEmpty (bd_query i) then h(a := (h a)\<lparr>bd_query := bd_query i\<rparr>) else h);
        h2 = (if nonEmpty (bd_reason i) then h1(a := (h1 a)\<lparr>bd_reason := bd_reason i\<rparr>) else h1);
        h3 = (if nonEmpty (bd_response i) then h2(a := (h2 a)\<lparr>bd_response := bd_response i\<rparr>) else h2)
    in h3)
   = h(a := overwriteFields (h a) i)"
  by (auto simp: Let_def overwriteFields_def fun_eq_iff)

lemma applyBreakdown_present:
  assumes key: "breakdownsBySymbol r (mapKey toStr (bd_reference (h b))) = Some a"
      and con: "consistent toStr (h, r)"
  shows "applyBreakdown toStr (h, r) b = (h(a := overwriteFields (h a) (h b)), r)"
proof -
  let ?h3 = "h(a := overwriteFields (h a) (h b))"
  let ?P = "\<lambda>x. ref_name (bd_reference (?h3 x)) = ref_name (bd_reference (?h3 b))
                \<and> ref_uri (bd_reference (?h3 x)) = ref_uri (bd_reference (?h3 b))"
  have refs: "\<And>x. bd_reference (?h3 x) = bd_reference (h x)" by simp
  have unfolded: "applyBreakdown toStr (h, r) b =
      (case findIndex ?P (breakdowns r) of
         Some index \<Rightarrow> (?h3, r\<lparr>breakdowns := (breakdowns r)[index := a]\<rparr>)
       | None \<Rightarrow> (?h3, r))"
    unfolding applyBreakdown_def Let_def fst_conv snd_conv
    by (simp only: key option.case field_writes [unfolded Let_def])
  show ?thesis
  proof (cases "findIndex ?P (breakdowns r)")
    case None
    with unfolded show ?thesis by simp
  next
    case (Some i)
    then have i: "i < length (breakdowns r)" and P: "?P (breakdowns r ! i)"
      using findIndex_Some [of ?P "breakdowns r" i] by blast+
    from P have "bd_reference (h (breakdowns r ! i)) = bd_reference (h b)"
      unfolding refs by (simp add: Reference.equality)
    moreover have "breakdownsBySymbol r (mapKey toStr (bd_reference (h (breakdowns r ! i))))
                     = Some (breakdowns r ! i)"
      using con i by (simp add: consistent_def)
    ultimately have "breakdowns r ! i = a" using key by simp
    then have "(breakdowns r)[i := a] = breakdowns r" by (metis list_update_id)
    with unfolded Some show ?thesis by simp
  qed
qed

lemma applyBreakdown_absent:
  assumes "breakdownsBySymbol r (mapKey toStr (bd_reference (h b))) = None"
  shows "applyBreakdown toStr (h, r) b =
           (h, r\<lparr>breakdownsBySymbol := (breakdownsBySymbol r)(mapKey toStr (bd_reference (h b)) \<mapsto> b),
                  breakdowns := breakdowns r @ [b]\<rparr>)"
  using assms by (simp add: applyBreakdown_def)

lemma consistent_new: "consistent toStr (h, new_AideProbeResponseModel)"
  by (simp add: consistent_def new_AideProbeResponseModel_def)

lemma consistent_applyBreakdown:
  assumes con: "consistent toStr (h, r)"
  shows "consistent toStr (applyBreakdown toStr (h, r) b)"
proof (cases "breakdownsBySymbol r (mapKey toStr (bd_reference (h b)))")
  case None
  have notin: "b \<notin> set (breakdowns r)"
    using con None by (auto simp: consistent_def)
  have others: "\<forall>a \<in> set (breakdowns r). mapKey toStr (bd_reference (h a)) \<noteq> mapKey toStr (bd_reference (h b))"
    using con None by (auto simp: consistent_def)
  have eq: "applyBreakdown toStr (h, r) b =
           (h, r\<lparr>breakdownsBySymbol := (breakdownsBySymbol r)(mapKey toStr (bd_reference (h b)) \<mapsto> b),
                  breakdowns := breakdowns r @ [b]\<rparr>)"
    using None by (rule applyBreakdown_absent)
  show ?thesis
    unfolding eq using con notin others None
    by (auto simp: consistent_def ran_def)
next
  case (Some a)
  have eq: "applyBreakdown toStr (h, r) b = (h(a := overwriteFields (h a) (h b)), r)"
    using Some con by (rule applyBreakdown_present)
  show ?thesis
    unfolding eq using con by (auto simp: consistent_def)
qed

lemma consistent_applyBreakdowns:
  "consistent toStr hr \<Longrightarrow> consistent toStr (applyBreakdowns toStr hr bs)"
  unfolding applyBreakdowns_def
proof (induction bs arbitrary: hr)
  case Nil
  then show ?case by simp
next
  case (Cons b bs)
  have "consistent toStr (applyBreakdown toStr hr b)"
    using consistent_applyBreakdown [of toStr "fst hr" "snd hr" b] Cons.prems by simp
  then show ?case using Cons.IH by simp
qed

lemma consistent_distinct_symbols:
  assumes "consistent toStr (h, r)"
  shows "distinct (map (symbolOf h) (breakdowns r))"
proof -
  have "inj_on (symbolOf h) (set (breakdowns r))"
  proof (rule inj_onI)
    fix x y assume x: "x \<in> set (breakdowns r)" and y: "y \<in> set (breakdowns r)"
      and eq: "symbolOf h x = symbolOf h y"
    from eq have "bd_reference (h x) = bd_reference (h y)"
      by (simp add: symbolOf_def Reference.equality)
    then have "mapKey toStr (bd_reference (h x)) = mapKey toStr (bd_reference (h y))" by simp
    moreover have "breakdownsBySymbol r (mapKey toStr (bd_reference (h x))) = Some x"
      using assms x by (simp add: consistent_def)
    moreover have "breakdownsBySymbol r (mapKey toStr (bd_reference (h y))) = Some y"
      using assms y by (simp add: consistent_def)
    ultimately show "x = y" by (metis option.inject)
  qed
  then show ?thesis using assms by (simp add: distinct_map consistent_def)
qed

text \<open>
  Claim C2. After any sequence of \<^verbatim>\<open>applyBreakdown\<close> calls on a new response model, the
  \<^verbatim>\<open>breakdowns\<close> array holds at most one object per pair of \<^verbatim>\<open>reference.uri\<close> and
  \<^verbatim>\<open>reference.name\<close>. A further breakdown whose key is in the map overwrites, in the
  object the map holds under that key (an object of the array), the fields \<^verbatim>\<open>query\<close>,
  \<^verbatim>\<open>reason\<close> and \<^verbatim>\<open>response\<close> that are non-empty in the incoming one, and leaves
  the array and the map as they are; a breakdown whose key is new is put in the map and
  appended to the array.
\<close>

theorem applyBreakdown_one_record_per_symbol:
  assumes s: "s = applyBreakdowns toStr (h0, new_AideProbeResponseModel) bs"
  shows "distinct (map (symbolOf (fst s)) (breakdowns (snd s)))
     \<and> (\<forall>a. breakdownsBySymbol (snd s) (mapKey toStr (bd_reference (fst s b))) = Some a \<longrightarrow>
            a \<in> set (breakdowns (snd s))
          \<and> applyBreakdown toStr s b = ((fst s)(a := overwriteFields (fst s a) (fst s b)), snd s))
     \<and> (breakdownsBySymbol (snd s) (mapKey toStr (bd_reference (fst s b))) = None \<longrightarrow>
          applyBreakdown toStr s b =
            (fst s, (snd s)\<lparr>breakdownsBySymbol :=
                               (breakdownsBySymbol (snd s))(mapKey toStr (bd_reference (fst s b)) \<mapsto> b),
                             breakdowns := breakdowns (snd s) @ [b]\<rparr>))"
proof -
  have con: "consistent toStr (fst s, snd s)"
    unfolding s prod.collapse by (rule consistent_applyBreakdowns) (rule consistent_new)
  have one: "distinct (map (symbolOf (fst s)) (breakdowns (snd s)))"
    using con by (rule consistent_distinct_symbols)
  have present: "a \<in> set (breakdowns (snd s))
      \<and> applyBreakdown toStr s b = ((fst s)(a := overwriteFields (fst s a) (fst s b)), snd s)"
    if "breakdownsBySymbol (snd s) (mapKey toStr (bd_reference (fst s b))) = Some a" for a
  proof
    show "a \<in> set (breakdowns (snd s))"
      using con that by (auto simp: consistent_def ran_def)
    show "applyBreakdown toStr s b = ((fst s)(a := overwriteFields (fst s a) (fst s b)), snd s)"
      using applyBreakdown_present [OF that con] by simp
  qed
  have absent: "applyBreakdown toStr s b =
            (fst s, (snd s)\<lparr>breakdownsBySymbol :=
                               (breakdownsBySymbol (snd s))(mapKey toStr (bd_reference (fst s b)) \<mapsto> b),
                             breakdowns := breakdowns (snd s) @ [b]\<rparr>)"
    if "breakdownsBySymbol (snd s) (mapKey toStr (bd_reference (fst s b))) = None"
    using applyBreakdown_absent [of "snd s" toStr "fst s" b] that by simp
  from one present absent show ?thesis by blast
qed

lemma ex_breakdown_run: "applyBreakdowns id (ex_store, new_AideProbeResponseModel) [0]
   = (ex_store, new_AideProbeResponseModel\<lparr>breakdownsBySymbol := [''file:///a.ts:foo'' \<mapsto> 0],
                                            breakdowns := [0]\<rparr>)"
  by (simp add: applyBreakdowns_def applyBreakdown_def new_AideProbeResponseModel_def
        mapKey_def ex_store_def ex_bd_first_def)

theorem applyBreakdown_one_record_per_symbol_witness:
  "applyBreakdown id (applyBreakdowns id (ex_store, new_AideProbeResponseModel) [0]) 1
     = (ex_store(0 := ex_bd_first\<lparr>bd_reason := Some \<lparr>md_value = ''because''\<rparr>\<rparr>),
        new_AideProbeResponseModel\<lparr>breakdownsBySymbol := [''file:///a.ts:foo'' \<mapsto> 0],
                                   breakdowns := [0]\<rparr>)
   \<and> applyBreakdown id (applyBreakdowns id (ex_store, new_AideProbeResponseModel) []) 0
     = (ex_store, new_AideProbeResponseModel\<lparr>breakdownsBySymbol := [''file:///a.ts:foo'' \<mapsto> 0],
                                              breakdowns := [0]\<rparr>)"
proof -
  let ?s = "applyBreakdowns id (ex_store, new_AideProbeResponseModel) [0]"
  have key: "breakdownsBySymbol (snd ?s) (mapKey id (bd_reference (fst ?s 1))) = Some 0"
    unfolding ex_breakdown_run by (simp add: mapKey_def ex_store_def ex_bd_update_def)
  have "applyBreakdown id ?s 1 = ((fst ?s)(0 := overwriteFields (fst ?s 0) (fst ?s 1)), snd ?s)"
    using applyBreakdown_one_record_per_symbol [of ?s id ex_store "[0]" 1] key by blast
  moreover have "overwriteFields (fst ?s 0) (fst ?s 1)
                   = ex_bd_first\<lparr>bd_reason := Some \<lparr>md_value = ''because''\<rparr>\<rparr>"
    unfolding ex_breakdown_run
    by (simp add: overwriteFields_def nonEmpty_def ex_store_def ex_bd_first_def ex_bd_update_def)
  ultimately have present: "applyBreakdown id ?s 1
     = (ex_store(0 := ex_bd_first\<lparr>bd_reason := Some \<lparr>md_value = ''because''\<rparr>\<rparr>),
        new_AideProbeResponseModel\<lparr>breakdownsBySymbol := [''file:///a.ts:foo'' \<mapsto> 0],
                                   breakdowns := [0]\<rparr>)"
    by (simp add: ex_breakdown_run)
  let ?e = "applyBreakdowns id (ex_store, new_AideProbeResponseModel) []"
  have e: "?e = (ex_store, new_AideProbeResponseModel)" by (simp add: applyBreakdowns_def)
  have nokey: "breakdownsBySymbol (snd ?e) (mapKey id (bd_reference (fst ?e 0))) = None"
    unfolding e by (simp add: new_AideProbeResponseModel_def)
  have "applyBreakdown id ?e 0 =
            (fst ?e, (snd ?e)\<lparr>breakdownsBySymbol :=
                               (breakdownsBySymbol (snd ?e))(mapKey id (bd_reference (fst ?e 0)) \<mapsto> 0),
                             breakdowns := breakdowns (snd ?e) @ [0]\<rparr>)"
    using applyBreakdown_one_record_per_symbol [of ?e id ex_store "[]" 0] nokey by blast
  then have absent: "applyBreakdown id ?e 0
     = (ex_store, new_AideProbeResponseModel\<lparr>breakdownsBySymbol := [''file:///a.ts:foo'' \<mapsto> 0],
                                              breakdowns := [0]\<rparr>)"
    unfolding e
    by (simp add: new_AideProbeResponseModel_def mapKey_def ex_store_def ex_bd_first_def)
  from present absent show ?thesis by blast
qed









text \<open>
  Claim C9. \<^verbatim>\<open>getSessions\<close> only reads the secret storage: with nothing stored under
  the sessions key (or the empty string) it returns the empty list, and otherwise it
  returns what \<^verbatim>\<open>JSON.parse\<close> makes of the stored text, a syntax error included.
\<close>

theorem getSessions_reads_secret:
  "(secrets st SESSIONS_SECRET_KEY = None \<longrightarrow> getSessions J st = Inr [])
   \<and> (secrets st SESSIONS_SECRET_KEY = Some [] \<longrightarrow> getSessions J st = Inr [])
   \<and> (\<forall>allSessions. secrets st SESSIONS_SECRET_KEY = Some allSessions \<and> allSessions \<noteq> []
         \<longrightarrow> getSessions J st = parse J allSessions)"
  by (simp add: getSessions_def)

theorem getSessions_reads_secret_witness:
  "getSessions ex_JSON ex_auth = Inr [ex_session]
   \<and> getSessions ex_JSON (ex_auth\<lparr>secrets := Map.empty\<rparr>) = Inr []"
proof -
  have stored: "secrets ex_auth SESSIONS_SECRET_KEY = Some ''[id-1]'' \<and> ''[id-1]'' \<noteq> []"
    by (simp add: ex_auth_def)
  have "getSessions ex_JSON ex_auth = parse ex_JSON ''[id-1]''"
    using getSessions_reads_secret [of ex_auth ex_JSON] stored by blast
  moreover have "parse ex_JSON ''[id-1]'' = Inr [ex_session]"
    by (simp add: ex_JSON_def tableJSON_def)
  moreover have "getSessions ex_JSON (ex_auth\<lparr>secrets := Map.empty\<rparr>) = Inr []"
    using getSessions_reads_secret [of "ex_auth\<lparr>secrets := Map.empty\<rparr>" ex_JSON] by simp
  ultimately show ?thesis by simp
qed

lemma findIndexJS_absent:
  "\<forall>x \<in> set xs. \<not> P x \<Longrightarrow> findIndexJS P xs = - 1"
  using findIndex_None [of P xs] by (simp add: findIndexJS_def)

lemma splice_last: "splice xs (- 1) 1 = butlast xs"
  by (cases xs rule: rev_cases) (simp_all add: splice_def Let_def)

lemma removeSession_unknown_id:
  assumes "secrets st SESSIONS_SECRET_KEY = Some allSessions" "allSessions \<noteq> []"
      and "parse J allSessions = Inr sessions"
      and "\<forall>s \<in> set sessions. session_id s \<noteq> sid"
  shows "removeSession J st sid
           = Inr (st\<lparr>secrets := (secrets st)(SESSIONS_SECRET_KEY \<mapsto> stringify J (butlast sessions))\<rparr>)"
  using assms
  by (simp add: removeSession_def findIndexJS_absent splice_last atJS_def)

text \<open>
  Claim C5. With one session stored, whose id is \<^verbatim>\<open>id-1\<close>, \<^verbatim>\<open>removeSession('id-2')\<close>
  fires no event but stores the empty list: \<^verbatim>\<open>findIndex\<close> returns \<^verbatim>\<open>-1\<close> and
  \<^verbatim>\<open>splice(-1, 1)\<close> removes the last session. The stored list is not left unchanged.
\<close>

theorem removeSession_unknown_id_drops_last:
  "session_id ex_session \<noteq> ''id-2''
   \<and> getSessions ex_JSON ex_auth = Inr [ex_session]
   \<and> removeSession ex_JSON ex_auth ''id-2''
       = Inr (ex_auth\<lparr>secrets := [SESSIONS_SECRET_KEY \<mapsto> ''[]'']\<rparr>)
   \<and> getSessions ex_JSON (ex_auth\<lparr>secrets := [SESSIONS_SECRET_KEY \<mapsto> ''[]'']\<rparr>) = Inr []"
  by (simp add: removeSession_def getSessions_def ex_auth_def ex_JSON_def tableJSON_def
        ex_session_def findIndexJS_def splice_def atJS_def SESSIONS_SECRET_KEY_def AUTH_TYPE_def)

text \<open>
  Claim C10. The value the \<^verbatim>\<open>codestory.semanticSearch\<close> handler returns is the value of
  \<^verbatim>\<open>sidecarClient.getSemanticSearchResult(prompt, currentRepo)\<close>, a rejection included,
  whatever the logger and the analytics client did before.
\<close>

theorem semanticSearch_forwards:
  "fst (semanticSearch env st prompt) = getSemanticSearchResult env prompt (currentRepo env)"
  by (simp add: semanticSearch_def Let_def)

lemma semanticSearch_example:
  "fst (semanticSearch ex_env \<lparr>logger_info = [], captured = []\<rparr> ''query'')
     = Inr [''/work/b.ts'', ''query'', ''/work/a.ts'']"
  by (simp add: semanticSearch_def ex_env_def Let_def)

lemma drainLines_yields:
  "yields (getLine C) a ls a' \<Longrightarrow>
     drainLines C rid (a, p, w, tr)
       = Some (a', fst (processLines C p ls w), snd (processLines C p ls w),
               tr @ map (ProcessLine rid) ls)"
proof (induction ls arbitrary: a p w tr)
  case Nil
  then show ?case by (subst drainLines.simps) simp
next
  case (Cons l ls)
  obtain x a1 where g: "getLine C a = (x, a1)" by (cases "getLine C a")
  with Cons.prems have x: "x = Some l" and rest: "yields (getLine C) a1 ls a'"
    by simp_all
  obtain p1 w1 where pl: "processLine C p l w = (p1, w1)" by (cases "processLine C p l w")
  have "drainLines C rid (a, p, w, tr) = drainLines C rid (a1, p1, w1, tr @ [ProcessLine rid l])"
    by (subst drainLines.simps) (simp add: g x pl)
  also have "\<dots> = Some (a', fst (processLines C p1 ls w1), snd (processLines C p1 ls w1),
                        (tr @ [ProcessLine rid l]) @ map (ProcessLine rid) ls)"
    by (rule Cons.IH [OF rest])
  finally show ?case by (simp add: pl)
qed

text \<open>
  Claim C3. A request with \<^verbatim>\<open>apply_directly\<close> false, arriving while no response stream
  is open, is dropped: the call returns \<^verbatim>\<open>{ fs_file_path: '', success: false }\<close>, the
  only change of the provider is the line \<^verbatim>\<open>editing_streamed::no_open_response_stream\<close>
  written to the console, so the edits map is as before, and the workspace with its
  documents is as before.
\<close>

theorem provideEditStreamed_drops_without_stream:
  assumes "\<not> apply_directly request" and "openResponseStream st = None"
  shows "provideEditStreamed C (st, w) request
           = Some (Inr \<lparr>r_fs_file_path = [], success = False\<rparr>,
                   st\<lparr>trace := trace st @
                        [ConsoleLog [LStr ''editing_streamed::no_open_response_stream'']]\<rparr>,
                   w)"
  using assms by (simp add: provideEditStreamed_def emit_def)

theorem provideEditStreamed_drops_without_stream_witness:
  "provideEditStreamed ex_collab (ex_provider, ex_workspace)
       ((ex_request Start)\<lparr>apply_directly := False\<rparr>)
     = Some (Inr \<lparr>r_fs_file_path = [], success = False\<rparr>,
             ex_provider\<lparr>trace := [ConsoleLog [LStr ''editing_streamed::no_open_response_stream'']]\<rparr>,
             ex_workspace)"
proof -
  have "\<not> apply_directly ((ex_request Start)\<lparr>apply_directly := False\<rparr>)" by simp
  moreover have "openResponseStream ex_provider = None" by (simp add: ex_provider_def)
  ultimately have "provideEditStreamed ex_collab (ex_provider, ex_workspace)
       ((ex_request Start)\<lparr>apply_directly := False\<rparr>)
     = Some (Inr \<lparr>r_fs_file_path = [], success = False\<rparr>,
             ex_provider\<lparr>trace := trace ex_provider @
                  [ConsoleLog [LStr ''editing_streamed::no_open_response_stream'']]\<rparr>,
             ex_workspace)"
    by (rule provideEditStreamed_drops_without_stream)
  then show ?thesis by (simp add: ex_provider_def)
qed

text \<open>
  Claim C1, as amended. For a request that is not dropped for want of an open response
  stream: a \<^verbatim>\<open>Start\<close> event whose document opens registers, under the request's
  \<^verbatim>\<open>edit_request_id\<close>, a new line accumulator and a new stream processor, and one
  whose document does not open (\<^verbatim>\<open>undefined\<close>, or a rejection) registers nothing; a
  \<^verbatim>\<open>Delta\<close> event with non-empty text, for a registered id, appends its text to the
  accumulator and has the stream processor process, in order, exactly the lines the
  accumulator then hands out (an empty \<^verbatim>\<open>Delta\<close> changes nothing); an \<^verbatim>\<open>End\<close> event
  for a registered id has the stream processor process the lines still buffered, each
  once and in order, then cleans up, saves the file, removes the id from the edits map and
  increments the edit counter.
\<close>

theorem provideEditStreamed_lifecycle:
  assumes handled: "apply_directly request \<or> openResponseStream st \<noteq> None"
  shows
    "(\<forall>doc. event request = Start
         \<and> openTextDocument C w (fs_file_path request) = Inr (Some doc) \<longrightarrow>
        provideEditStreamed C (st, w) request
          = Some (Inr \<lparr>r_fs_file_path = [], success = True\<rparr>,
                  st\<lparr>editsMap := (editsMap st)(edit_request_id request \<mapsto>
                         \<lparr>answerSplitter = new_AnswerSplitter C,
                          streamProcessor = new_StreamProcessor C
                            \<lparr>sp_progress = openResponseStream st, sp_lines = splitLines doc,
                             sp_uri = fs_file_path request, sp_range = edit_range request,
                             sp_iterationEdits = iterationEdits st,
                             sp_applyDirectly = apply_directly request,
                             sp_uniqueId = editCounter st\<rparr>\<rparr>),
                     trace := trace st @
                       [OpenTextDocument (fs_file_path request),
                        ConsoleLog [LStr ''editsStreamed::content'', LNum (Date_now C), LStr doc],
                        ConsoleLog [LStr ''editStreaming.start'', LStr (fs_file_path request)],
                        ConsoleLog [LRange (edit_range request)],
                        ConsoleLog [LLines (splitLines doc)],
                        New AnswerSplitterObj, New StreamProcessorObj]\<rparr>,
                  w))
   \<and> (event request = Start
         \<and> openTextDocument C w (fs_file_path request) = Inr None \<longrightarrow>
        provideEditStreamed C (st, w) request
          = Some (Inr \<lparr>r_fs_file_path = [], success = False\<rparr>,
                  st\<lparr>trace := trace st @ [OpenTextDocument (fs_file_path request)]\<rparr>, w))
   \<and> (\<forall>e. event request = Start
         \<and> openTextDocument C w (fs_file_path request) = Inl e \<longrightarrow>
        provideEditStreamed C (st, w) request
          = Some (Inl e, st\<lparr>trace := trace st @ [OpenTextDocument (fs_file_path request)]\<rparr>, w))
   \<and> (\<forall>delta m ls a'. event request = Delta delta \<and> delta \<noteq> []
         \<and> editsMap st (edit_request_id request) = Some m
         \<and> yields (getLine C) (addDelta C (answerSplitter m) delta) ls a' \<longrightarrow>
        provideEditStreamed C (st, w) request
          = Some (Inr \<lparr>r_fs_file_path = [], success = True\<rparr>,
                  st\<lparr>editsMap := (editsMap st)(edit_request_id request \<mapsto>
                         \<lparr>answerSplitter = a',
                          streamProcessor = fst (processLines C (streamProcessor m) ls w)\<rparr>),
                     trace := trace st @ map (ProcessLine (edit_request_id request)) ls\<rparr>,
                  snd (processLines C (streamProcessor m) ls w)))
   \<and> (event request = Delta [] \<longrightarrow>
        provideEditStreamed C (st, w) request
          = Some (Inr \<lparr>r_fs_file_path = [], success = True\<rparr>, st, w))
   \<and> (\<forall>m ls a'. event request = End
         \<and> editsMap st (edit_request_id request) = Some m
         \<and> yields (getLine C) (answerSplitter m) ls a' \<longrightarrow>
        provideEditStreamed C (st, w) request
          = Some (Inr \<lparr>r_fs_file_path = [], success = True\<rparr>,
                  st\<lparr>editsMap := (editsMap st)(edit_request_id request := None),
                     editCounter := editCounter st + 1,
                     trace := trace st @ map (ProcessLine (edit_request_id request)) ls @
                       [Cleanup (edit_request_id request),
                        WorkspaceSave (fs_file_path request),
                        ConsoleLog [LStr ''provideEditsStreamed::finished'',
                                    LStr (fs_file_path request)]]\<rparr>,
                  perform C (WorkspaceSave (fs_file_path request))
                    (snd (cleanup C (fst (processLines C (streamProcessor m) ls w))
                                    (snd (processLines C (streamProcessor m) ls w))))))"
proof -
  have guard: "\<not> (\<not> apply_directly request \<and> openResponseStream st = None)"
    using handled by blast
  have start: "provideEditStreamed C (st, w) request
          = Some (Inr \<lparr>r_fs_file_path = [], success = True\<rparr>,
                  st\<lparr>editsMap := (editsMap st)(edit_request_id request \<mapsto>
                         \<lparr>answerSplitter = new_AnswerSplitter C,
                          streamProcessor = new_StreamProcessor C
                            \<lparr>sp_progress = openResponseStream st, sp_lines = splitLines doc,
                             sp_uri = fs_file_path request, sp_range = edit_range request,
                             sp_iterationEdits = iterationEdits st,
                             sp_applyDirectly = apply_directly request,
                             sp_uniqueId = editCounter st\<rparr>\<rparr>),
                     trace := trace st @
                       [OpenTextDocument (fs_file_path request),
                        ConsoleLog [LStr ''editsStreamed::content'', LNum (Date_now C), LStr doc],
                        ConsoleLog [LStr ''editStreaming.start'', LStr (fs_file_path request)],
                        ConsoleLog [LRange (edit_range request)],
                        ConsoleLog [LLines (splitLines doc)],
                        New AnswerSplitterObj, New StreamProcessorObj]\<rparr>,
                  w)"
    if "event request = Start" "openTextDocument C w (fs_file_path request) = Inr (Some doc)"
    for doc
    using that guard by (simp add: provideEditStreamed_def emit_def Let_def)
  have nodoc: "provideEditStreamed C (st, w) request
          = Some (Inr \<lparr>r_fs_file_path = [], success = False\<rparr>,
                  st\<lparr>trace := trace st @ [OpenTextDocument (fs_file_path request)]\<rparr>, w)"
    if "event request = Start" "openTextDocument C w (fs_file_path request) = Inr None"
    using that handled by (auto simp add: provideEditStreamed_def emit_def Let_def)
  have rejected: "provideEditStreamed C (st, w) request
          = Some (Inl e, st\<lparr>trace := trace st @ [OpenTextDocument (fs_file_path request)]\<rparr>, w)"
    if "event request = Start" "openTextDocument C w (fs_file_path request) = Inl e" for e
    using that handled by (auto simp add: provideEditStreamed_def emit_def Let_def)
  have delta: "provideEditStreamed C (st, w) request
          = Some (Inr \<lparr>r_fs_file_path = [], success = True\<rparr>,
                  st\<lparr>editsMap := (editsMap st)(edit_request_id request \<mapsto>
                         \<lparr>answerSplitter = a',
                          streamProcessor = fst (processLines C (streamProcessor m) ls w)\<rparr>),
                     trace := trace st @ map (ProcessLine (edit_request_id request)) ls\<rparr>,
                  snd (processLines C (streamProcessor m) ls w))"
    if "event request = Delta delta" "delta \<noteq> []"
       "editsMap st (edit_request_id request) = Some m"
       "yields (getLine C) (addDelta C (answerSplitter m) delta) ls a'"
    for delta m ls a'
    using that guard
    by (simp add: provideEditStreamed_def Let_def drainLines_yields [OF that(4)])
  have empty: "provideEditStreamed C (st, w) request
          = Some (Inr \<lparr>r_fs_file_path = [], success = True\<rparr>, st, w)"
    if "event request = Delta []"
    using that guard by (simp add: provideEditStreamed_def Let_def)
  have finish: "provideEditStreamed C (st, w) request
          = Some (Inr \<lparr>r_fs_file_path = [], success = True\<rparr>,
                  st\<lparr>editsMap := (editsMap st)(edit_request_id request := None),
                     editCounter := editCounter st + 1,
                     trace := trace st @ map (ProcessLine (edit_request_id request)) ls @
                       [Cleanup (edit_request_id request),
                        WorkspaceSave (fs_file_path request),
                        ConsoleLog [LStr ''provideEditsStreamed::finished'',
                                    LStr (fs_file_path request)]]\<rparr>,
                  perform C (WorkspaceSave (fs_file_path request))
                    (snd (cleanup C (fst (processLines C (streamProcessor m) ls w))
                                    (snd (processLines C (streamProcessor m) ls w)))))"
    if "event request = End"
       "editsMap st (edit_request_id request) = Some m"
       "yields (getLine C) (answerSplitter m) ls a'"
    for m ls a'
    using that guard
    by (simp add: provideEditStreamed_def Let_def drainLines_yields [OF that(3)]
          call_def emit_def split: prod.split)
  from start nodoc rejected delta empty finish show ?thesis by blast
qed

text \<open>
  Claim C1 as stated fails for a \<^verbatim>\<open>Start\<close> event whose document does not open. With
  \<^verbatim>\<open>apply_directly\<close> true, so that the request is not dropped for want of a response
  stream: when \<^verbatim>\<open>openTextDocument\<close> resolves to \<^verbatim>\<open>undefined\<close> the call returns
  \<^verbatim>\<open>success: false\<close>, and when it is rejected the call is rejected; in both cases
  nothing is registered under the request's \<^verbatim>\<open>edit_request_id\<close>.
\<close>

theorem provideEditStreamed_start_without_document:
  "provideEditStreamed ex_collab (ex_provider, ex_workspace)
       ((ex_request Start)\<lparr>fs_file_path := ''/work/missing.ts''\<rparr>)
     = Some (Inr \<lparr>r_fs_file_path = [], success = False\<rparr>,
             ex_provider\<lparr>trace := [OpenTextDocument ''/work/missing.ts'']\<rparr>,
             ex_workspace)
   \<and> editsMap (ex_provider\<lparr>trace := [OpenTextDocument ''/work/missing.ts'']\<rparr>) ''e1'' = None
   \<and> provideEditStreamed ex_collab (ex_provider, ex_workspace)
       ((ex_request Start)\<lparr>fs_file_path := []\<rparr>)
     = Some (Inl (Error ''cannot open''),
             ex_provider\<lparr>trace := [OpenTextDocument []]\<rparr>, ex_workspace)
   \<and> editsMap (ex_provider\<lparr>trace := [OpenTextDocument []]\<rparr>) ''e1'' = None
   \<and> event (ex_request Start) = Start
   \<and> apply_directly (ex_request Start)
   \<and> edit_request_id (ex_request Start) = ''e1''"
  by (simp add: provideEditStreamed_def ex_collab_def ex_provider_def ex_workspace_def
        ex_request_def ex_openTextDocument_def emit_def)

lemma ex_splitLines: "splitLines ''x'' = [''x'']"
  by (simp add: splitLines_def)

theorem provideEditStreamed_lifecycle_witness:
  "provideEditStreamed ex_collab (ex_provider, ex_workspace) (ex_request Start)
     = Some (Inr \<lparr>r_fs_file_path = [], success = True\<rparr>,
             ex_registered\<lparr>trace :=
               [OpenTextDocument ''/work/a.ts'',
                ConsoleLog [LStr ''editsStreamed::content'', LNum 0, LStr ''x''],
                ConsoleLog [LStr ''editStreaming.start'', LStr ''/work/a.ts''],
                ConsoleLog [LRange ((0, 0), (0, 1))],
                ConsoleLog [LLines [''x'']],
                New AnswerSplitterObj, New StreamProcessorObj]\<rparr>,
             ex_workspace)
   \<and> provideEditStreamed ex_collab (ex_registered, ex_workspace) (ex_request (Delta ex_delta))
     = Some (Inr \<lparr>r_fs_file_path = [], success = True\<rparr>,
             ex_provider\<lparr>editsMap := [''e1'' \<mapsto> \<lparr>answerSplitter = (''c'', []),
                                                    streamProcessor = (''/work/a.ts'', 2)\<rparr>],
                          trace := [ProcessLine ''e1'' ''a'', ProcessLine ''e1'' ''b'']\<rparr>,
             [''/work/a.ts'' \<mapsto> [''x'', ''a'', ''b'']])
   \<and> provideEditStreamed ex_collab (ex_buffered, ex_workspace) (ex_request End)
     = Some (Inr \<lparr>r_fs_file_path = [], success = True\<rparr>,
             ex_provider\<lparr>editCounter := 1,
                          trace := [ProcessLine ''e1'' ''d'', Cleanup ''e1'',
                                    WorkspaceSave ''/work/a.ts'',
                                    ConsoleLog [LStr ''provideEditsStreamed::finished'',
                                                LStr ''/work/a.ts'']]\<rparr>,
             [''/work/a.ts'' \<mapsto> [''x'', ''d'']])
   \<and> provideEditStreamed ex_collab (ex_provider, ex_workspace)
       ((ex_request Start)\<lparr>fs_file_path := ''/work/none.ts''\<rparr>)
     = Some (Inr \<lparr>r_fs_file_path = [], success = False\<rparr>,
             ex_provider\<lparr>trace := [OpenTextDocument ''/work/none.ts'']\<rparr>, ex_workspace)
   \<and> provideEditStreamed ex_collab (ex_provider, ex_workspace)
       ((ex_request Start)\<lparr>fs_file_path := []\<rparr>)
     = Some (Inl (Error ''cannot open''),
             ex_provider\<lparr>trace := [OpenTextDocument []]\<rparr>, ex_workspace)"
proof -
  let ?m0 = "\<lparr>answerSplitter = ([]::string, []::string list), streamProcessor = (''/work/a.ts'', 0::nat)\<rparr>"
  let ?m2 = "\<lparr>answerSplitter = (''c'', [''d'']), streamProcessor = (''/work/a.ts'', 2::nat)\<rparr>"
  have h0: "apply_directly (ex_request Start) \<or> openResponseStream ex_provider \<noteq> None"
    and h1: "apply_directly (ex_request (Delta ex_delta)) \<or> openResponseStream ex_registered \<noteq> None"
    and h2: "apply_directly (ex_request End) \<or> openResponseStream ex_buffered \<noteq> None"
    by (simp_all add: ex_request_def)
  have opened: "event (ex_request Start) = Start
      \<and> openTextDocument ex_collab ex_workspace (fs_file_path (ex_request Start)) = Inr (Some ''x'')"
    by (simp add: ex_request_def ex_collab_def ex_openTextDocument_def ex_workspace_def)
  note start = provideEditStreamed_lifecycle [where request = "ex_request Start" and st = ex_provider
      and C = ex_collab and w = ex_workspace, OF h0, THEN conjunct1, rule_format, OF opened]
  have one: "provideEditStreamed ex_collab (ex_provider, ex_workspace) (ex_request Start)
     = Some (Inr \<lparr>r_fs_file_path = [], success = True\<rparr>,
             ex_registered\<lparr>trace :=
               [OpenTextDocument ''/work/a.ts'',
                ConsoleLog [LStr ''editsStreamed::content'', LNum 0, LStr ''x''],
                ConsoleLog [LStr ''editStreaming.start'', LStr ''/work/a.ts''],
                ConsoleLog [LRange ((0, 0), (0, 1))],
                ConsoleLog [LLines [''x'']],
                New AnswerSplitterObj, New StreamProcessorObj]\<rparr>,
             ex_workspace)"
    unfolding start
    by (simp add: ex_splitLines ex_registered_def ex_provider_def ex_request_def ex_collab_def)
  have dl: "event (ex_request (Delta ex_delta)) = Delta ex_delta \<and> ex_delta \<noteq> []
      \<and> editsMap ex_registered (edit_request_id (ex_request (Delta ex_delta))) = Some ?m0
      \<and> yields (getLine ex_collab) (addDelta ex_collab (answerSplitter ?m0) ex_delta)
           [''a'', ''b''] (''c'', [])"
    by (simp add: ex_request_def ex_delta_def ex_registered_def ex_collab_def ex_addDelta_def
          ex_getLine_def)
  note delta = provideEditStreamed_lifecycle [where request = "ex_request (Delta ex_delta)"
      and st = ex_registered and C = ex_collab and w = ex_workspace, OF h1,
      THEN conjunct2, THEN conjunct2, THEN conjunct2, THEN conjunct1, rule_format, OF dl]
  have pl1: "processLines ex_collab (streamProcessor ?m0) [''a'', ''b''] ex_workspace
               = ((''/work/a.ts'', 2), [''/work/a.ts'' \<mapsto> [''x'', ''a'', ''b'']])"
    by (simp add: ex_collab_def ex_processLine_def ex_workspace_def)
  have two: "provideEditStreamed ex_collab (ex_registered, ex_workspace) (ex_request (Delta ex_delta))
     = Some (Inr \<lparr>r_fs_file_path = [], success = True\<rparr>,
             ex_provider\<lparr>editsMap := [''e1'' \<mapsto> \<lparr>answerSplitter = (''c'', []),
                                                    streamProcessor = (''/work/a.ts'', 2)\<rparr>],
                          trace := [ProcessLine ''e1'' ''a'', ProcessLine ''e1'' ''b'']\<rparr>,
             [''/work/a.ts'' \<mapsto> [''x'', ''a'', ''b'']])"
    unfolding delta pl1
    by (simp add: ex_registered_def ex_provider_def ex_request_def)
  have en: "event (ex_request End) = End
      \<and> editsMap ex_buffered (edit_request_id (ex_request End)) = Some ?m2
      \<and> yields (getLine ex_collab) (answerSplitter ?m2) [''d''] (''c'', [])"
    by (simp add: ex_request_def ex_buffered_def ex_collab_def ex_getLine_def)
  note finish = provideEditStreamed_lifecycle [where request = "ex_request End"
      and st = ex_buffered and C = ex_collab and w = ex_workspace, OF h2,
      THEN conjunct2, THEN conjunct2, THEN conjunct2, THEN conjunct2, THEN conjunct2,
      rule_format, OF en]
  have pl2: "processLines ex_collab (streamProcessor ?m2) [''d''] ex_workspace
               = ((''/work/a.ts'', 3), [''/work/a.ts'' \<mapsto> [''x'', ''d'']])"
    by (simp add: ex_collab_def ex_processLine_def ex_workspace_def)
  have three: "provideEditStreamed ex_collab (ex_buffered, ex_workspace) (ex_request End)
     = Some (Inr \<lparr>r_fs_file_path = [], success = True\<rparr>,
             ex_provider\<lparr>editCounter := 1,
                          trace := [ProcessLine ''e1'' ''d'', Cleanup ''e1'',
                                    WorkspaceSave ''/work/a.ts'',
                                    ConsoleLog [LStr ''provideEditsStreamed::finished'',
                                                LStr ''/work/a.ts'']]\<rparr>,
             [''/work/a.ts'' \<mapsto> [''x'', ''d'']])"
    unfolding finish pl2
    by (simp add: ex_buffered_def ex_provider_def ex_request_def ex_collab_def)
  let ?none = "(ex_request Start)\<lparr>fs_file_path := ''/work/none.ts''\<rparr>"
  let ?bad = "(ex_request Start)\<lparr>fs_file_path := []\<rparr>"
  have h3: "apply_directly ?none \<or> openResponseStream ex_provider \<noteq> None"
    and h4: "apply_directly ?bad \<or> openResponseStream ex_provider \<noteq> None"
    by (simp_all add: ex_request_def)
  have absent: "event ?none = Start
      \<and> openTextDocument ex_collab ex_workspace (fs_file_path ?none) = Inr None"
    by (simp add: ex_request_def ex_collab_def ex_openTextDocument_def ex_workspace_def)
  have refused: "event ?bad = Start
      \<and> openTextDocument ex_collab ex_workspace (fs_file_path ?bad) = Inl (Error ''cannot open'')"
    by (simp add: ex_request_def ex_collab_def ex_openTextDocument_def ex_workspace_def)
  note nodoc = provideEditStreamed_lifecycle [where request = ?none and st = ex_provider
      and C = ex_collab and w = ex_workspace, OF h3,
      THEN conjunct2, THEN conjunct1, rule_format, OF absent]
  note rejected = provideEditStreamed_lifecycle [where request = ?bad and st = ex_provider
      and C = ex_collab and w = ex_workspace, OF h4,
      THEN conjunct2, THEN conjunct2, THEN conjunct1, rule_format, OF refused]
  have four: "provideEditStreamed ex_collab (ex_provider, ex_workspace) ?none
     = Some (Inr \<lparr>r_fs_file_path = [], success = False\<rparr>,
             ex_provider\<lparr>trace := [OpenTextDocument ''/work/none.ts'']\<rparr>, ex_workspace)"
    unfolding nodoc by (simp add: ex_provider_def)
  have five: "provideEditStreamed ex_collab (ex_provider, ex_workspace) ?bad
     = Some (Inl (Error ''cannot open''),
             ex_provider\<lparr>trace := [OpenTextDocument []]\<rparr>, ex_workspace)"
    unfolding rejected by (simp add: ex_provider_def)
  from one two three four five show ?thesis by blast
qed

lemma limitersConstructed_append:
  "limitersConstructed (xs @ ys) = limitersConstructed xs @ limitersConstructed ys"
  by (induction xs rule: limitersConstructed.induct) simp_all

lemma limitersPassed_append:
  "limitersPassed (xs @ ys) = limitersPassed xs @ limitersPassed ys"
  by (induction xs rule: limitersPassed.induct) simp_all

lemma limiters_ProcessLine:
  "limitersConstructed (map (ProcessLine rid) ls) = []"
  "limitersPassed (map (ProcessLine rid) ls) = []"
  by (induction ls) simp_all

lemma limiters_probeEffects:
  "limitersConstructed (probeEffects ports) = []"
  "limitersPassed (probeEffects ports) = []"
  by (induction ports) (simp_all add: probeEffects_def)

lemma limiters_StreamStep:
  "limitersConstructed (map (\<lambda>x. StreamStep a b (h x) x) xs) = []"
  "limitersPassed (map (\<lambda>x. StreamStep a b (h x) x) xs) = []"
  by (induction xs) simp_all

lemma limiters_planSteps:
  "limitersConstructed (planSteps stream plan) = []"
  "limitersPassed (planSteps stream plan) = []"
  by (simp_all add: planSteps_def limiters_StreamStep)

lemma drainLines_trace:
  assumes drained: "drainLines C rid s = Some y"
  shows "\<exists>ls. snd (snd (snd y)) = snd (snd (snd s)) @ map (ProcessLine rid) ls"
proof (rule drainLines.raw_induct
    [where P = "\<lambda>C rid s y. \<exists>ls. snd (snd (snd y)) = snd (snd (snd s)) @ map (ProcessLine rid) ls",
     OF _ drained], goal_cases)
  case (1 f C rid s y)
  obtain a p w tr where s: "s = (a, p, w, tr)" by (cases s)
  obtain x a1 where g: "getLine C a = (x, a1)" by (cases "getLine C a")
  show ?case
  proof (cases x)
    case None
    with 1(2) s g have "y = (a1, p, w, tr)" by simp
    with s show ?thesis by simp
  next
    case (Some l)
    obtain p1 w1 where pl: "processLine C p l w = (p1, w1)" by (cases "processLine C p l w")
    from 1(2) s g Some pl
    have "f C rid (a1, p1, w1, tr @ [ProcessLine rid l]) = Some y" by simp
    from 1(1) [OF this] obtain ls
      where "snd (snd (snd y)) = (tr @ [ProcessLine rid l]) @ map (ProcessLine rid) ls"
      by auto
    then have "snd (snd (snd y)) = snd (snd (snd s)) @ map (ProcessLine rid) (l # ls)"
      using s by simp
    then show ?thesis by blast
  qed
qed

lemma quiet_Nil [simp]: "quiet l0 []"
  by (simp add: quiet_def)

lemma quiet_append: "quiet l0 (xs @ ys) \<longleftrightarrow> quiet l0 xs \<and> quiet l0 ys"
  by (auto simp: quiet_def limitersConstructed_append limitersPassed_append)

lemma quiet_ProcessLine: "quiet l0 (map (ProcessLine rid) ls)"
  by (simp add: quiet_def limiters_ProcessLine)

lemma quiet_probeEffects: "quiet l0 (probeEffects ports)"
  by (simp add: quiet_def limiters_probeEffects)

lemma quiet_planSteps: "quiet l0 (planSteps stream plan)"
  by (simp add: quiet_def limiters_planSteps)

lemma extends_refl: "extends st st"
  by (simp add: extends_def)

lemma extends_trans: "extends st st' \<Longrightarrow> extends st' st'' \<Longrightarrow> extends st st''"
  by (auto simp: extends_def quiet_append)

lemma extendsI:
  "limiter st' = limiter st \<Longrightarrow> trace st' = trace st @ es \<Longrightarrow> quiet (limiter st) es
     \<Longrightarrow> extends st st'"
  by (auto simp: extends_def)

lemma emit_fields [simp]:
  "trace (emit es st) = trace st @ es"
  "limiter (emit es st) = limiter st"
  "editorUrl (emit es st) = editorUrl st"
  "iterationEdits (emit es st) = iterationEdits st"
  by (simp_all add: emit_def)

lemma call_fields [simp]:
  "trace (fst (call C e sw)) = trace (fst sw) @ [e]"
  "limiter (fst (call C e sw)) = limiter (fst sw)"
  "editorUrl (fst (call C e sw)) = editorUrl (fst sw)"
  "iterationEdits (fst (call C e sw)) = iterationEdits (fst sw)"
  by (simp_all add: call_def)

lemma foldl_call_fields:
  "trace (fst (foldl (\<lambda>sw' e. call C e sw') sw es)) = trace (fst sw) @ es
   \<and> limiter (fst (foldl (\<lambda>sw' e. call C e sw') sw es)) = limiter (fst sw)"
  by (induction es arbitrary: sw) simp_all

lemma askPlan_fields:
  "trace (fst (snd (askPlan C e stream sw))) = trace (fst sw) @ askPlanEffects C e stream (snd sw)"
  "limiter (fst (snd (askPlan C e stream sw))) = limiter (fst sw)"
  by (simp_all add: askPlan_def askPlanEffects_def foldl_call_fields
        split: sum.split option.split)

lemma quiet_askPlanEffects:
  "quiet l0 [e] \<Longrightarrow> quiet l0 (askPlanEffects C e stream w)"
  using quiet_append [of l0 "[e]" "planSteps stream plan" for plan]
  by (auto simp: askPlanEffects_def quiet_planSteps split: sum.split option.split)

lemma quiet_Cons: "quiet l0 (e # es) \<longleftrightarrow> quiet l0 [e] \<and> quiet l0 es"
  using quiet_append [of l0 "[e]" es] by simp

lemma extends_eq:
  "extends st st' \<longleftrightarrow>
     limiter st' = limiter st \<and> take (length (trace st)) (trace st') = trace st
     \<and> length (trace st) \<le> length (trace st')
     \<and> quiet (limiter st) (drop (length (trace st)) (trace st'))"
  unfolding extends_def
proof (intro iffI conjI; (elim conjE exE)?)
  assume "limiter st' = limiter st"
    "take (length (trace st)) (trace st') = trace st"
    "quiet (limiter st) (drop (length (trace st)) (trace st'))"
  then show "\<exists>es. trace st' = trace st @ es \<and> quiet (limiter st) es"
    by (metis append_take_drop_id)
qed simp_all

lemmas limiters_simps =
  quiet_def limitersConstructed_append limitersPassed_append limiters_probeEffects
  limiters_planSteps limiters_ProcessLine

lemma extends_listenOnOpenPort: "extends st (snd (listenOnOpenPort C st))"
  unfolding extends_eq
  by (simp add: listenOnOpenPort_def limiters_simps split: prod.split option.split)

lemma extends_sendContextRecording: "extends (fst sw) (fst (sendContextRecording C sw events))"
  unfolding extends_eq by (simp add: sendContextRecording_def quiet_def)

lemma extends_provideEdit: "extends (fst sw) (fst (snd (provideEdit C sw request)))"
  unfolding extends_eq by (simp add: provideEdit_def quiet_def split: option.split)

lemma extends_newSession: "extends st (newSession st sid)"
  unfolding extends_eq by (simp add: newSession_def)

lemma extends_dispose: "extends (fst sw) (fst (dispose C sw))"
  unfolding extends_eq by (simp add: dispose_def quiet_def)

lemma limiters_askPlanEffects:
  "limitersConstructed (askPlanEffects C e stream w) = limitersConstructed [e]"
  "limitersPassed (askPlanEffects C e stream w) = limitersPassed [e]"
  using limitersConstructed_append [of "[e]" "planSteps stream plan" for plan]
        limitersPassed_append [of "[e]" "planSteps stream plan" for plan]
  by (auto simp: askPlanEffects_def limiters_planSteps split: sum.split option.split)

lemma extends_generateResponse:
  "extends (fst sw) (fst (snd (generateResponse C sw sid ev stream token)))"
  unfolding extends_eq
  by (simp add: generateResponse_def Let_def askPlan_fields limiters_simps limiters_askPlanEffects
        split: option.split AideAgentMode.split sum.split)

lemma extends_processEvent: "extends (fst sw) (fst (processEvent C sw ev))"
proof -
  have upd: "extends st (st\<lparr>processingEvents := pe\<rparr>)" for st :: "('a, 'b, 'c) AideAgentSessionProvider" and pe
    unfolding extends_eq by simp
  have init: "extends (fst sw) (fst (call C (InitResponse sid) sw))" for sid
    unfolding extends_eq by (simp add: quiet_def)
  show ?thesis
    unfolding processEvent_def Let_def
    by (auto split: option.split prod.split
          intro: extends_refl init
                 extends_trans [OF init extends_generateResponse [THEN extends_trans, OF upd]]
                 extends_trans [OF init extends_generateResponse]
          simp: split_beta)
qed

lemma extends_handleEvent: "extends (fst sw) (fst (handleEvent C sw ev))"
proof -
  have upd: "extends st (st\<lparr>eventQueue := q\<rparr>)"
    and upd2: "extends st (st\<lparr>eventQueue := q, processingEvents := pe\<rparr>)"
    for st :: "('a, 'b, 'c) AideAgentSessionProvider" and q pe
    unfolding extends_eq by simp_all
  have pe: "extends ((fst sw)\<lparr>eventQueue := q, processingEvents := pe\<rparr>)
          (fst (processEvent C
                  ((fst sw)\<lparr>eventQueue := q, processingEvents := pe\<rparr>, snd sw) ev))" for q pe
    using extends_processEvent
            [of "((fst sw)\<lparr>eventQueue := q, processingEvents := pe\<rparr>, snd sw)" C ev]
    by simp
  have "extends (fst sw)
          (fst (processEvent C
                  ((fst sw)\<lparr>eventQueue := q, processingEvents := pe\<rparr>, snd sw) ev))" for q pe
    using upd2 pe by (rule extends_trans)
  then show ?thesis
    unfolding handleEvent_def Let_def by (simp add: upd)
qed

lemma extends_provideEditStreamed:
  assumes "provideEditStreamed C sw request = Some (r, st', w')"
  shows "extends (fst sw) st'"
proof (cases "\<not> apply_directly request \<and> openResponseStream (fst sw) = None")
  case True
  with assms show ?thesis
    unfolding extends_eq by (auto simp: provideEditStreamed_def Let_def quiet_def)
next
  case False
  show ?thesis
  proof (cases "event request")
    case Start
    with assms False show ?thesis
      unfolding extends_eq
      by (auto simp: provideEditStreamed_def Let_def quiet_def split: sum.splits option.splits)
  next
    case End
    show ?thesis
    proof (cases "editsMap (fst sw) (edit_request_id request)")
      case None
      with assms False End show ?thesis
        by (auto simp: provideEditStreamed_def Let_def extends_refl)
    next
      case (Some m)
      with assms False End obtain a' p' w1 tr' where
        d: "drainLines C (edit_request_id request)
              (answerSplitter m, streamProcessor m, snd sw, trace (fst sw)) = Some (a', p', w1, tr')"
        by (auto simp: provideEditStreamed_def Let_def split: option.splits)
      from drainLines_trace [OF d] obtain ls
        where tr': "tr' = trace (fst sw) @ map (ProcessLine (edit_request_id request)) ls"
        by auto
      from assms False End Some d tr' show ?thesis
        unfolding extends_eq
        by (auto simp: provideEditStreamed_def Let_def limiters_simps split: prod.splits)
    qed
  next
    case (Delta delta)
    show ?thesis
    proof (cases "delta \<noteq> [] \<and> editsMap (fst sw) (edit_request_id request) \<noteq> None")
      case nothing: False
      with assms False Delta show ?thesis
        by (auto simp: provideEditStreamed_def Let_def extends_refl split: if_splits)
    next
      case True
      then obtain m where m: "editsMap (fst sw) (edit_request_id request) = Some m" by auto
      with assms False Delta True obtain a' p' w1 tr' where
        d: "drainLines C (edit_request_id request)
              (addDelta C (answerSplitter m) delta, streamProcessor m, snd sw, trace (fst sw))
              = Some (a', p', w1, tr')"
        by (auto simp: provideEditStreamed_def Let_def split: option.splits)
      from drainLines_trace [OF d] obtain ls
        where tr': "tr' = trace (fst sw) @ map (ProcessLine (edit_request_id request)) ls"
        by auto
      from assms False Delta True m d tr' show ?thesis
        unfolding extends_eq
        by (auto simp: provideEditStreamed_def Let_def limiters_simps)
    qed
  qed
qed

lemma extends_step:
  assumes "step C sw operation = Some sw'"
  shows "extends (fst sw) (fst sw')"
proof (cases operation)
  case ListenOnOpenPort
  with assms show ?thesis by (auto simp: step_def extends_listenOnOpenPort)
next
  case (SendContextRecordingOp events)
  with assms show ?thesis by (auto simp: step_def extends_sendContextRecording)
next
  case (ProvideEditStreamedOp request)
  with assms obtain r where "provideEditStreamed C sw request = Some (r, fst sw', snd sw')"
    by (auto simp: step_def)
  then show ?thesis by (rule extends_provideEditStreamed)
next
  case (ProvideEditOp request)
  with assms show ?thesis by (auto simp: step_def extends_provideEdit)
next
  case (NewSessionOp sid)
  with assms show ?thesis by (auto simp: step_def extends_newSession)
next
  case (HandleEventOp ev)
  with assms show ?thesis by (auto simp: step_def extends_handleEvent)
next
  case DisposeOp
  with assms show ?thesis by (auto simp: step_def extends_dispose)
qed

lemma extends_run:
  "run C sw operations = Some sw' \<Longrightarrow> extends (fst sw) (fst sw')"
proof (induction operations arbitrary: sw)
  case Nil
  then show ?case by (simp add: extends_refl)
next
  case (Cons operation operations)
  then obtain sw1 where s: "step C sw operation = Some sw1" and r: "run C sw1 operations = Some sw'"
    by (auto split: option.splits)
  from extends_step [OF s] Cons.IH [OF r] show ?case by (rule extends_trans)
qed

text \<open>
  Claim C8. In every run of a provider, that is the constructor followed by any sequence
  of its operations, the trace constructs exactly one limiter, the \<^verbatim>\<open>new Limiter(1)\<close>
  of the constructor with its single slot; the field \<^verbatim>\<open>limiter\<close> holds it throughout;
  every limiter passed to \<^verbatim>\<open>reportAgentEventsToChat\<close> is that one; and
  \<^verbatim>\<open>generateResponse\<close> for an event in edit mode, with the editor's url set, calls
  \<^verbatim>\<open>startAgentCodeEdit\<close> and then \<^verbatim>\<open>reportAgentEventsToChat\<close> with that limiter.
\<close>

theorem provider_single_limiter:
  assumes "run C (new_AideAgentSessionProvider edits, w) operations = Some (st, w')"
  shows "limitersConstructed (trace st) = [1]
     \<and> limiter st = Limiter 1
     \<and> set (limitersPassed (trace st)) \<subseteq> {Limiter 1}
     \<and> (\<forall>sid ev stream token url.
           ar_mode ev = Edit \<and> editorUrl st = Some url \<and> url \<noteq> [] \<longrightarrow>
           trace (fst (snd (generateResponse C (st, w') sid ev stream token)))
             = trace st @
               [StartAgentCodeEdit (ar_prompt ev) (ar_references ev) url sid
                  (ar_scope ev = Codebase) (ar_scope ev = Selection),
                ReportAgentEventsToChat True stream sid token (iterationEdits st) (Limiter 1)])"
proof -
  let ?new = "new_AideAgentSessionProvider edits :: ('a, 'b, 'c) AideAgentSessionProvider"
  have "extends ?new st"
    using extends_run [OF assms] by simp
  then obtain es where lim: "limiter st = limiter ?new"
    and tr: "trace st = trace ?new @ es" and q: "quiet (limiter ?new) es"
    by (auto simp: extends_def)
  have new: "limiter ?new = Limiter 1" "limitersConstructed (trace ?new) = [1]"
    "limitersPassed (trace ?new) = []"
    by (simp_all add: new_AideAgentSessionProvider_def)
  have one: "limitersConstructed (trace st) = [1]"
    using q new by (simp add: tr limitersConstructed_append quiet_def)
  have two: "limiter st = Limiter 1" using lim new by simp
  have three: "set (limitersPassed (trace st)) \<subseteq> {Limiter 1}"
    using q new by (simp add: tr limitersPassed_append quiet_def)
  have four: "trace (fst (snd (generateResponse C (st, w') sid ev stream token)))
             = trace st @
               [StartAgentCodeEdit (ar_prompt ev) (ar_references ev) url sid
                  (ar_scope ev = Codebase) (ar_scope ev = Selection),
                ReportAgentEventsToChat True stream sid token (iterationEdits st) (Limiter 1)]"
    if "ar_mode ev = Edit" "editorUrl st = Some url" "url \<noteq> []" for sid ev stream token url
    using that two by (simp add: generateResponse_def Let_def)
  from one two three four show ?thesis by blast
qed

lemma ex_port: "getNextOpenPort (isPortOpen ex_collab) 42427 = (Some 42429, [42427, 42428, 42429])"
  by (simp add: getNextOpenPort.simps [of _ 42427] getNextOpenPort.simps [of _ 42428]
        getNextOpenPort.simps [of _ 42429] ex_collab_def)

lemma ex_show: "numberToString ex_collab (Integer 42429) = ''42429''"
  by (simp add: ex_collab_def ex_numberToString_def showNat.simps [of 42429]
        showNat.simps [of 4242] showNat.simps [of 424] showNat.simps [of 42]
        showNat.simps [of 4] char_of_def bit_Suc_0_iff)

lemma ex_listen:
  "listenOnOpenPort ex_collab (new_AideAgentSessionProvider 0)
     = (None, (new_AideAgentSessionProvider 0)
               \<lparr>editorUrl := Some ''http://localhost:42429'',
                trace := [New WorkspaceEditObj, New MapObj, New (LimiterObj 1), New MapObj,
                          HttpCreateServer, New PromiseObj, NetCreateServer 42427,
                          CreateChatParticipant ''aide'',
                          New PromiseObj, NetCreateServer 42428,
                          New PromiseObj, NetCreateServer 42429, Listen 42429]\<rparr>)"
  by (simp add: listenOnOpenPort_def ex_port ex_show new_AideAgentSessionProvider_def
      emit_def probeEffects_def)

lemma ex_provider_run:
  "run ex_collab (new_AideAgentSessionProvider 0, ex_workspace) ex_operations
     = Some (ex_final, ex_workspace)"
  apply (simp add: ex_operations_def step_def ex_listen newSession_def ex_final_def)
  apply (simp add: handleEvent_def processEvent_def generateResponse_def Let_def
      new_AideAgentSessionProvider_def call_def emit_def ex_event_def)
  apply (simp add: ex_collab_def)
  apply (simp add: generateResponse_def Let_def call_def emit_def)
  done

theorem provider_single_limiter_witness:
  "run ex_collab (new_AideAgentSessionProvider 0, ex_workspace) ex_operations
     = Some (ex_final, ex_workspace)
   \<and> limitersConstructed (trace ex_final) = [1]
   \<and> limiter ex_final = Limiter 1
   \<and> limitersPassed (trace ex_final) = [Limiter 1]
   \<and> trace (fst (snd (generateResponse ex_collab (ex_final, ex_workspace) ''s1'' ex_event 9 10)))
       = trace ex_final @
         [StartAgentCodeEdit ''fix'' [] ''http://localhost:42429'' ''s1'' True False,
          ReportAgentEventsToChat True 9 ''s1'' 10 0 (Limiter 1)]"
proof -
  note facts = provider_single_limiter [OF ex_provider_run]
  have passed: "limitersPassed (trace ex_final) = [Limiter 1]"
    by (simp add: ex_final_def)
  have edit: "ar_mode ex_event = Edit \<and> editorUrl ex_final = Some ''http://localhost:42429''
                \<and> ''http://localhost:42429'' \<noteq> []"
    by (simp add: ex_event_def ex_final_def)
  have "trace (fst (snd (generateResponse ex_collab (ex_final, ex_workspace) ''s1'' ex_event 9 10)))
       = trace ex_final @
         [StartAgentCodeEdit (ar_prompt ex_event) (ar_references ex_event)
            ''http://localhost:42429'' ''s1''
            (ar_scope ex_event = Codebase) (ar_scope ex_event = Selection),
          ReportAgentEventsToChat True 9 ''s1'' 10 (iterationEdits ex_final) (Limiter 1)]"
    using facts edit by blast
  then have again: "trace (fst (snd (generateResponse ex_collab (ex_final, ex_workspace) ''s1'' ex_event 9 10)))
       = trace ex_final @
         [StartAgentCodeEdit ''fix'' [] ''http://localhost:42429'' ''s1'' True False,
          ReportAgentEventsToChat True 9 ''s1'' 10 0 (Limiter 1)]"
    by (simp add: ex_event_def ex_final_def)
  from facts passed again ex_provider_run show ?thesis by blast
qed

end
